theory Spec2Isabelle
  imports Main
begin

section \<open>Text as the program sees it\<close>

text \<open>
  A Python \<^verbatim>\<open>str\<close> is a sequence of Unicode code points, and \<^verbatim>\<open>len\<close> counts code
  points. The recipe pages are Russian, so a text is modelled as a list of code points
  (natural numbers), not as a list of bytes. Selectors, tag names and attribute names
  are ASCII constants of the program and stay Isabelle strings.
\<close>

type_synonym ustring = "nat list"

definition ascii :: "string \<Rightarrow> ustring" where
  "ascii s = map of_char s"

text \<open>The Cyrillic letters the program's constants use, under their Unicode names.\<close>

abbreviation cyr_a :: nat where "cyr_a \<equiv> 0x430"
abbreviation cyr_be :: nat where "cyr_be \<equiv> 0x431"
abbreviation cyr_ve :: nat where "cyr_ve \<equiv> 0x432"
abbreviation cyr_ghe :: nat where "cyr_ghe \<equiv> 0x433"
abbreviation cyr_de :: nat where "cyr_de \<equiv> 0x434"
abbreviation cyr_ie :: nat where "cyr_ie \<equiv> 0x435"
abbreviation cyr_ze :: nat where "cyr_ze \<equiv> 0x437"
abbreviation cyr_i :: nat where "cyr_i \<equiv> 0x438"
abbreviation cyr_ka :: nat where "cyr_ka \<equiv> 0x43A"
abbreviation cyr_el :: nat where "cyr_el \<equiv> 0x43B"
abbreviation cyr_em :: nat where "cyr_em \<equiv> 0x43C"
abbreviation cyr_en :: nat where "cyr_en \<equiv> 0x43D"
abbreviation cyr_o :: nat where "cyr_o \<equiv> 0x43E"
abbreviation cyr_pe :: nat where "cyr_pe \<equiv> 0x43F"
abbreviation cyr_er :: nat where "cyr_er \<equiv> 0x440"
abbreviation cyr_es :: nat where "cyr_es \<equiv> 0x441"
abbreviation cyr_te :: nat where "cyr_te \<equiv> 0x442"
abbreviation cyr_u :: nat where "cyr_u \<equiv> 0x443"
abbreviation cyr_tse :: nat where "cyr_tse \<equiv> 0x446"
abbreviation cyr_che :: nat where "cyr_che \<equiv> 0x447"
abbreviation cyr_sha :: nat where "cyr_sha \<equiv> 0x448"
abbreviation cyr_yeru :: nat where "cyr_yeru \<equiv> 0x44B"
abbreviation cyr_yu :: nat where "cyr_yu \<equiv> 0x44E"
abbreviation cyr_ya :: nat where "cyr_ya \<equiv> 0x44F"
abbreviation cyr_cap_i :: nat where "cyr_cap_i \<equiv> 0x418"
abbreviation cyr_cap_el :: nat where "cyr_cap_el \<equiv> 0x41B"
abbreviation cyr_cap_o :: nat where "cyr_cap_o \<equiv> 0x41E"
abbreviation cyr_cap_pe :: nat where "cyr_cap_pe \<equiv> 0x41F"
abbreviation cyr_cap_er :: nat where "cyr_cap_er \<equiv> 0x420"
abbreviation cyr_cap_es :: nat where "cyr_cap_es \<equiv> 0x421"
abbreviation cyr_cap_te :: nat where "cyr_cap_te \<equiv> 0x422"
abbreviation en_dash :: nat where "en_dash \<equiv> 0x2013"
abbreviation em_dash :: nat where "em_dash \<equiv> 0x2014"
abbreviation hyphen :: nat where "hyphen \<equiv> 0x2D"
abbreviation period :: nat where "period \<equiv> 0x2E"
abbreviation comma :: nat where "comma \<equiv> 0x2C"
abbreviation blank :: nat where "blank \<equiv> 0x20"
abbreviation newline :: nat where "newline \<equiv> 0x0A"

subsection \<open>The interpreter's Unicode tables and settings\<close>

text \<open>
  The program reaches the interpreter's Unicode character database through
  \<^verbatim>\<open>str.lower\<close>, \<^verbatim>\<open>str.strip\<close>, \<^verbatim>\<open>int\<close> and the classes \<^verbatim>\<open>\d\<close>, \<^verbatim>\<open>\s\<close>, \<^verbatim>\<open>\w\<close> and the
  flag \<^verbatim>\<open>IGNORECASE\<close> of \<^verbatim>\<open>re\<close>. The tables are not part of the repository and change with
  the interpreter's Unicode version, so they are a parameter of the model:
  \<^item> \<open>isspace\<close>: \<^verbatim>\<open>str.isspace\<close> of one code point (\<^verbatim>\<open>\s\<close>, \<^verbatim>\<open>strip\<close>);
  \<^item> \<open>isdecimal\<close>: \<^verbatim>\<open>str.isdecimal\<close> (\<^verbatim>\<open>\d\<close>), and \<open>decimal_value\<close> the digit's value;
  \<^item> \<open>isalnum\<close>: \<^verbatim>\<open>str.isalnum\<close> (\<^verbatim>\<open>\w\<close> is this or the underscore);
  \<^item> \<open>sre_lower\<close>: the simple lower-case mapping \<^verbatim>\<open>re\<close> folds a character with, and
    \<open>sre_fixes\<close>: the further characters \<^verbatim>\<open>re\<close> treats as equal to a folded letter;
  \<^item> \<open>str_lower\<close>: \<^verbatim>\<open>str.lower\<close> of a whole string.

  One setting of the interpreter is a parameter too: \<open>int_max_str_digits\<close>, the value of
  \<^verbatim>\<open>sys.get_int_max_str_digits()\<close>. When it is not zero, \<^verbatim>\<open>int\<close> raises \<^verbatim>\<open>ValueError\<close> for
  a text of more digits; interpreters without the setting behave as with zero.
\<close>

record interp =
  isspace :: "nat \<Rightarrow> bool"
  isdecimal :: "nat \<Rightarrow> bool"
  decimal_value :: "nat \<Rightarrow> nat"
  isalnum :: "nat \<Rightarrow> bool"
  sre_lower :: "nat \<Rightarrow> nat"
  sre_fixes :: "nat \<Rightarrow> nat list"
  str_lower :: "ustring \<Rightarrow> ustring"
  int_max_str_digits :: nat

text \<open>
  An interpreter for evaluating examples, with the default limit of 4300 digits. Its
  tables agree with Unicode on Basic Latin, on the
  Russian alphabet (U+0410 to U+044F, U+0401, U+0451) and on the white space and dash
  characters; the examples below use no other character. Every other character is
  classified as neither space, digit nor letter and is its own lower case.
\<close>

definition ru_isspace :: "nat \<Rightarrow> bool" where
  "ru_isspace c \<longleftrightarrow> (0x09 \<le> c \<and> c \<le> 0x0D) \<or> (0x1C \<le> c \<and> c \<le> 0x20) \<or> c = 0x85
     \<or> c = 0xA0 \<or> c = 0x1680 \<or> (0x2000 \<le> c \<and> c \<le> 0x200A) \<or> c = 0x2028 \<or> c = 0x2029
     \<or> c = 0x202F \<or> c = 0x205F \<or> c = 0x3000"

definition ru_isdecimal :: "nat \<Rightarrow> bool" where
  "ru_isdecimal c \<longleftrightarrow> 0x30 \<le> c \<and> c \<le> 0x39"

definition ru_isalpha :: "nat \<Rightarrow> bool" where
  "ru_isalpha c \<longleftrightarrow> (0x41 \<le> c \<and> c \<le> 0x5A) \<or> (0x61 \<le> c \<and> c \<le> 0x7A)
     \<or> (0x410 \<le> c \<and> c \<le> 0x44F) \<or> c = 0x401 \<or> c = 0x451"

definition ru_lower :: "nat \<Rightarrow> nat" where
  "ru_lower c = (if 0x41 \<le> c \<and> c \<le> 0x5A then c + 0x20
     else if 0x410 \<le> c \<and> c \<le> 0x42F then c + 0x20
     else if c = 0x401 then 0x451 else c)"

definition ru_fixes :: "nat \<Rightarrow> nat list" where
  "ru_fixes c = (if c = 0x69 then [0x131] else if c = 0x73 then [0x17F]
     else if c = 0x6B then [0x212A]
     else if c = cyr_ve then [0x1C80] else if c = cyr_de then [0x1C81]
     else if c = cyr_o then [0x1C82] else if c = cyr_es then [0x1C83]
     else if c = cyr_te then [0x1C84, 0x1C85] else if c = 0x44A then [0x1C86]
     else [])"

definition interp_ru :: interp where
  "interp_ru = \<lparr> isspace = ru_isspace, isdecimal = ru_isdecimal,
     decimal_value = (\<lambda>c. c - 0x30),
     isalnum = (\<lambda>c. ru_isalpha c \<or> ru_isdecimal c),
     sre_lower = ru_lower, sre_fixes = ru_fixes, str_lower = map ru_lower,
     int_max_str_digits = 4300 \<rparr>"

subsection \<open>String methods\<close>

text \<open>\<^verbatim>\<open>s.strip()\<close> removes leading and trailing white space.\<close>

definition strip :: "interp \<Rightarrow> ustring \<Rightarrow> ustring" where
  "strip U s = rev (dropWhile (isspace U) (rev (dropWhile (isspace U) s)))"

text \<open>\<^verbatim>\<open>s.replace(a, b)\<close> for one-character \<^verbatim>\<open>a\<close> and \<^verbatim>\<open>b\<close>, and \<^verbatim>\<open>s.replace(a, '')\<close>.\<close>

definition replace1 :: "nat \<Rightarrow> nat \<Rightarrow> ustring \<Rightarrow> ustring" where
  "replace1 a b s = map (\<lambda>c. if c = a then b else c) s"

definition remove1_char :: "nat \<Rightarrow> ustring \<Rightarrow> ustring" where
  "remove1_char a s = filter (\<lambda>c. c \<noteq> a) s"

section \<open>The unit normalizer\<close>

text \<open>
  \<^verbatim>\<open>RecipeParserService._normalize_unit\<close>. The dictionary keeps insertion order, and the
  loop returns at the first key that matches, so the dictionary is an association list
  in the order of the source.
\<close>

definition unit_map :: "(ustring \<times> ustring) list" where
  "unit_map =
    [([cyr_ghe], [cyr_ghe]),
     ([cyr_ghe, cyr_er], [cyr_ghe]),
     ([cyr_ghe, cyr_er, cyr_a, cyr_em, cyr_em], [cyr_ghe]),
     ([cyr_em, cyr_el], [cyr_em, cyr_el]),
     ([cyr_ka, cyr_ghe], [cyr_ka, cyr_ghe]),
     ([cyr_el], [cyr_el]),
     ([cyr_el, cyr_i, cyr_te, cyr_er], [cyr_el]),
     ([cyr_sha, cyr_te], [cyr_sha, cyr_te]),
     ([cyr_sha, cyr_te, cyr_u, cyr_ka], [cyr_sha, cyr_te]),
     ([cyr_es, cyr_te, period, cyr_el], [cyr_es, cyr_te, period, cyr_el, period]),
     ([cyr_es, cyr_te, blank, cyr_el], [cyr_es, cyr_te, period, cyr_el, period]),
     ([cyr_che, period, cyr_el], [cyr_che, period, cyr_el, period]),
     ([cyr_che, blank, cyr_el], [cyr_che, period, cyr_el, period]),
     ([cyr_es, cyr_te, cyr_a, cyr_ka, cyr_a, cyr_en], [cyr_es, cyr_te, cyr_a, cyr_ka, cyr_a, cyr_en])]"

text \<open>\<^verbatim>\<open>.replace('.', '').replace(' ', '')\<close>, applied to the input and to every key.\<close>

definition squash :: "ustring \<Rightarrow> ustring" where
  "squash s = remove1_char blank (remove1_char period s)"

text \<open>The loop over \<^verbatim>\<open>unit_map.items()\<close>, with its early return.\<close>

fun lookup_unit :: "ustring \<Rightarrow> (ustring \<times> ustring) list \<Rightarrow> ustring option" where
  "lookup_unit unit_lower [] = None"
| "lookup_unit unit_lower ((key, val) # items) =
     (if squash key = unit_lower then Some val else lookup_unit unit_lower items)"

definition normalize_unit :: "interp \<Rightarrow> ustring \<Rightarrow> ustring" where
  "normalize_unit U unit =
     (let unit_lower = squash (str_lower U unit)
      in case lookup_unit unit_lower unit_map of Some val \<Rightarrow> val | None \<Rightarrow> unit)"

text \<open>The canonical vocabulary: the values of the dictionary.\<close>

definition canonical_units :: "ustring list" where
  "canonical_units = remdups (map snd unit_map)"

section \<open>Regular expressions\<close>

text \<open>
  The fragment of \<^verbatim>\<open>re\<close> syntax that the program's patterns use, and a backtracking
  matcher for it. An atom is one item of a character set: a literal compared exactly
  (\<open>Ch\<close>; under \<^verbatim>\<open>IGNORECASE\<close> this is how \<^verbatim>\<open>re\<close> compares an uncased character), a cased
  literal under \<^verbatim>\<open>IGNORECASE\<close> (\<open>ChI\<close>: the text's character is folded and compared
  with the folded letter and its equivalents), \<^verbatim>\<open>\d\<close>, \<^verbatim>\<open>\s\<close>, \<^verbatim>\<open>\w\<close>, the dot (anything
  but a newline) and the dot under \<^verbatim>\<open>DOTALL\<close>.
\<close>

datatype atom = Ch nat | ChI nat | Digit | Space | Word | Dot | DotAll

fun atom_match :: "interp \<Rightarrow> atom \<Rightarrow> nat \<Rightarrow> bool" where
  "atom_match U (Ch a) c = (c = a)"
| "atom_match U (ChI a) c =
     (sre_lower U c \<in> set (sre_lower U a # sre_fixes U (sre_lower U a)))"
| "atom_match U Digit c = isdecimal U c"
| "atom_match U Space c = isspace U c"
| "atom_match U Word c = (isalnum U c \<or> c = 0x5F)"
| "atom_match U Dot c = (c \<noteq> newline)"
| "atom_match U DotAll c = True"

definition set_match :: "interp \<Rightarrow> atom list \<Rightarrow> nat \<Rightarrow> bool" where
  "set_match U atoms c = list_ex (\<lambda>a. atom_match U a c) atoms"

text \<open>
  Expressions without groups. Repetition is over one character set, as everywhere in
  the source: \<open>Star\<close> and \<open>Plus\<close> are the greedy \<^verbatim>\<open>*\<close> and \<^verbatim>\<open>+\<close>, \<open>StarLazy\<close> and
  \<open>PlusLazy\<close> are \<^verbatim>\<open>*?\<close> and \<^verbatim>\<open>+?\<close>, \<open>Opt\<close> is the greedy \<^verbatim>\<open>?\<close>, \<open>Ahead\<close> is \<^verbatim>\<open>(?=...)\<close>
  and \<open>Eos\<close> is \<^verbatim>\<open>$\<close> without \<^verbatim>\<open>MULTILINE\<close>.
\<close>

datatype regex =
    Eps
  | One "atom list"
  | Seq regex regex
  | Alt regex regex
  | Opt regex
  | Star "atom list"
  | Plus "atom list"
  | StarLazy "atom list"
  | PlusLazy "atom list"
  | Ahead regex
  | Eos

definition seqs :: "regex list \<Rightarrow> regex" where
  "seqs rs = foldr Seq rs Eps"

definition alts :: "regex list \<Rightarrow> regex" where
  "alts rs = foldr Alt (butlast rs) (last rs)"

definition word :: "ustring \<Rightarrow> regex" where
  "word w = seqs (map (\<lambda>c. One [Ch c]) w)"

definition word_i :: "ustring \<Rightarrow> regex" where
  "word_i w = seqs (map (\<lambda>c. One [ChI c]) w)"

text \<open>The length of the longest run of characters of a set at the start of a text.\<close>

definition run :: "interp \<Rightarrow> atom list \<Rightarrow> ustring \<Rightarrow> nat" where
  "run U atoms s = length (takeWhile (set_match U atoms) s)"

text \<open>
  \<open>rmatch U r s\<close> lists what can remain of \<open>s\<close> after a match of \<open>r\<close> at its start, in
  the order in which a backtracking matcher tries the possibilities: the left
  alternative before the right one, the longest repetition first for a greedy
  quantifier and the shortest first for a lazy one. The head of the list is the match
  that \<^verbatim>\<open>re\<close> reports.
\<close>

fun rmatch :: "interp \<Rightarrow> regex \<Rightarrow> ustring \<Rightarrow> ustring list" where
  "rmatch U Eps s = [s]"
| "rmatch U (One atoms) s =
     (case s of [] \<Rightarrow> [] | c # cs \<Rightarrow> if set_match U atoms c then [cs] else [])"
| "rmatch U (Seq r1 r2) s = concat (map (rmatch U r2) (rmatch U r1 s))"
| "rmatch U (Alt r1 r2) s = rmatch U r1 s @ rmatch U r2 s"
| "rmatch U (Opt r) s = rmatch U r s @ [s]"
| "rmatch U (Star atoms) s = map (\<lambda>k. drop k s) (rev [0..<Suc (run U atoms s)])"
| "rmatch U (Plus atoms) s = map (\<lambda>k. drop k s) (rev [1..<Suc (run U atoms s)])"
| "rmatch U (StarLazy atoms) s = map (\<lambda>k. drop k s) [0..<Suc (run U atoms s)]"
| "rmatch U (PlusLazy atoms) s = map (\<lambda>k. drop k s) [1..<Suc (run U atoms s)]"
| "rmatch U (Ahead r) s = (if rmatch U r s = [] then [] else [s])"
| "rmatch U Eos s = (if s = [] \<or> s = [newline] then [s] else [])"

text \<open>
  A pattern is a sequence of pieces, each a capturing group or an expression outside
  any group; all patterns of the source have this form. A match is the list of the
  groups' texts (\<^verbatim>\<open>match.groups()\<close>) and the text after the match.
\<close>

datatype piece = Cap regex | Non regex

type_synonym pattern = "piece list"
type_synonym match = "ustring list \<times> ustring"

fun pmatch :: "interp \<Rightarrow> pattern \<Rightarrow> ustring \<Rightarrow> match list" where
  "pmatch U [] s = [([], s)]"
| "pmatch U (Cap r # ps) s =
     concat (map (\<lambda>rest. map (\<lambda>(groups, fin). (take (length s - length rest) s # groups, fin))
                               (pmatch U ps rest))
                 (rmatch U r s))"
| "pmatch U (Non r # ps) s = concat (map (pmatch U ps) (rmatch U r s))"

text \<open>\<^verbatim>\<open>re.match\<close>: the first match at the start of the text, if there is one.\<close>

definition re_match :: "interp \<Rightarrow> pattern \<Rightarrow> ustring \<Rightarrow> match option" where
  "re_match U p s = (case pmatch U p s of [] \<Rightarrow> None | m # _ \<Rightarrow> Some m)"

text \<open>\<^verbatim>\<open>re.search\<close>: the first match at the leftmost position that has one.\<close>

fun re_search :: "interp \<Rightarrow> pattern \<Rightarrow> ustring \<Rightarrow> match option" where
  "re_search U p [] = re_match U p []"
| "re_search U p (c # cs) =
     (case re_match U p (c # cs) of Some m \<Rightarrow> Some m | None \<Rightarrow> re_search U p cs)"

text \<open>
  \<^verbatim>\<open>re.sub(pattern, '', text)\<close>: every match is deleted, scanning from the left and
  resuming after each match; a character at which nothing (or only the empty text)
  matches is kept.
\<close>

fun re_sub_empty :: "interp \<Rightarrow> pattern \<Rightarrow> ustring \<Rightarrow> ustring" where
  "re_sub_empty U p [] = []"
| "re_sub_empty U p (c # cs) =
     (case re_match U p (c # cs) of
        None \<Rightarrow> c # re_sub_empty U p cs
      | Some (groups, rest) \<Rightarrow>
          if length rest < length (c # cs) then re_sub_empty U p rest
          else c # re_sub_empty U p cs)"

section \<open>The per-item ingredient parser\<close>

text \<open>
  The two patterns of \<^verbatim>\<open>RecipeParserService._parse_ingredient_string\<close>, both used with
  \<^verbatim>\<open>re.IGNORECASE\<close>:
  \<^verbatim>\<open>(\d+(?:[.,]\d+)?)\s*(UNIT)\.?\s*[dashes]?\s*(.+)\<close> and
  \<^verbatim>\<open>(.+?)\s*[dashes]\s*(\d+(?:[.,]\d+)?)\s*(UNIT)\<close>, where the set of dashes is the en dash,
  the em dash and the hyphen, and \<^verbatim>\<open>UNIT\<close> is the alternation of the unit words.
\<close>

definition number :: regex where
  "number = Seq (Plus [Digit]) (Opt (Seq (One [Ch period, Ch comma]) (Plus [Digit])))"

definition unit_token :: regex where
  "unit_token = alts
     [word_i [cyr_ghe],
      word_i [cyr_em, cyr_el],
      word_i [cyr_ka, cyr_ghe],
      word_i [cyr_el],
      word_i [cyr_sha, cyr_te],
      seqs [word_i [cyr_es, cyr_te], Opt (One [Ch period]), Star [Space],
            word_i [cyr_el], Opt (One [Ch period])],
      seqs [word_i [cyr_che], Opt (One [Ch period]), Star [Space],
            word_i [cyr_el], Opt (One [Ch period])],
      seqs [word_i [cyr_es, cyr_te, cyr_a, cyr_ka, cyr_a, cyr_en], Star [Word]],
      seqs [word_i [cyr_sha, cyr_te, cyr_u, cyr_ka], Star [Word]]]"

definition dashes :: "atom list" where
  "dashes = [Ch en_dash, Ch em_dash, Ch hyphen]"

definition quantity_first :: pattern where
  "quantity_first =
     [Cap number, Non (Star [Space]), Cap unit_token,
      Non (seqs [Opt (One [Ch period]), Star [Space], Opt (One dashes), Star [Space]]),
      Cap (Plus [Dot])]"

definition name_first :: pattern where
  "name_first =
     [Cap (PlusLazy [Dot]), Non (seqs [Star [Space], One dashes, Star [Space]]),
      Cap number, Non (Star [Space]), Cap unit_token]"

definition patterns :: "pattern list" where
  "patterns = [quantity_first, name_first]"

record ingredient =
  name :: ustring
  quantity :: ustring
  unit :: ustring

text \<open>
  Unpacking \<^verbatim>\<open>match.groups()\<close> into three names raises \<^verbatim>\<open>ValueError\<close> unless there are
  exactly three groups, and so does \<^verbatim>\<open>int\<close> for a text it refuses; \<^verbatim>\<open>match.group(i)\<close> raises \<^verbatim>\<open>IndexError\<close> when the pattern has no
  group \<^verbatim>\<open>i\<close>; an attribute of \<^verbatim>\<open>None\<close> raises \<^verbatim>\<open>AttributeError\<close>.
\<close>

datatype py_error = ValueError | IndexError | AttributeError

fun unpack3 :: "ustring list \<Rightarrow> py_error + ustring \<times> ustring \<times> ustring" where
  "unpack3 [a, b, c] = Inr (a, b, c)"
| "unpack3 _ = Inl ValueError"

text \<open>The body of the loop over the patterns, once a pattern has matched.\<close>

definition matched :: "interp \<Rightarrow> pattern \<Rightarrow> match \<Rightarrow> py_error + ingredient option" where
  "matched U pat m =
     (case (if pat = patterns ! 0
            then unpack3 (fst m)
            else (case unpack3 (fst m) of
                    Inl e \<Rightarrow> Inl e
                  | Inr (n, q, u) \<Rightarrow> Inr (q, u, n))) of
        Inl e \<Rightarrow> Inl e
      | Inr (q, u, n) \<Rightarrow>
          Inr (Some \<lparr> name = strip U n,
                      quantity = replace1 comma period q,
                      unit = normalize_unit U (strip U u) \<rparr>))"

fun try_patterns :: "interp \<Rightarrow> pattern list \<Rightarrow> ustring \<Rightarrow> (py_error + ingredient option) option" where
  "try_patterns U [] text = None"
| "try_patterns U (pat # pats) text =
     (case re_match U pat text of
        Some m \<Rightarrow> Some (matched U pat m)
      | None \<Rightarrow> try_patterns U pats text)"

definition parse_ingredient_string :: "interp \<Rightarrow> ustring \<Rightarrow> py_error + ingredient option" where
  "parse_ingredient_string U text =
     (case try_patterns U patterns text of
        Some result \<Rightarrow> result
      | None \<Rightarrow>
          if length text > 2
          then Inr (Some \<lparr> name = text, quantity = ascii ''1'', unit = [cyr_sha, cyr_te] \<rparr>)
          else Inr None)"

section \<open>The document\<close>

text \<open>
  The page is queried through the HTML library, which is not part of the repository. An
  element is what the program reads of a tag: \<^verbatim>\<open>get_text()\<close>, \<^verbatim>\<open>get_text(strip=True)\<close>
  (the library strips every text node and joins them, so this is not the stripped
  \<^verbatim>\<open>get_text()\<close>), its attributes with their values as texts (the program reads only
  \<^verbatim>\<open>content\<close>), and its descendants in document order, each with its tag name. A tag object is always true in a condition, so \<^verbatim>\<open>if element\<close> asks
  whether the query found one.
\<close>

datatype element =
  Element (get_text: ustring) (get_text_strip: ustring)
          (attrs: "(string \<times> ustring) list") (descendants: "(string \<times> element) list")

text \<open>\<^verbatim>\<open>element.find_all(tags)\<close> and \<^verbatim>\<open>element.get(key)\<close>.\<close>

definition find_all :: "element \<Rightarrow> string list \<Rightarrow> element list" where
  "find_all element tags = map snd (filter (\<lambda>(tag, e). tag \<in> set tags) (descendants element))"

definition get_attr :: "element \<Rightarrow> string \<Rightarrow> ustring option" where
  "get_attr element key = map_of (attrs element) key"

text \<open>
  The parsed page answers the program's queries: \<^verbatim>\<open>soup.select_one(selector)\<close>,
  \<^verbatim>\<open>soup.find(tag)\<close>, \<^verbatim>\<open>soup.find_all(tags)\<close> in document order,
  \<^verbatim>\<open>soup.find_all(tags, class_=re.compile(word))\<close> and \<^verbatim>\<open>soup.get_text()\<close>.
\<close>

record soup =
  soup_select_one :: "string \<Rightarrow> element option"
  soup_find :: "string \<Rightarrow> element option"
  soup_find_all :: "string list \<Rightarrow> element list"
  soup_find_all_class :: "string list \<Rightarrow> string \<Rightarrow> element list"
  soup_get_text :: ustring

section \<open>The field extractors\<close>

text \<open>
  Every extractor runs \<^verbatim>\<open>for selector in selectors\<close> with a \<^verbatim>\<open>return\<close> inside. The body
  of such a loop is a function of the selector that gives \<open>Some r\<close> when the body
  returns \<open>r\<close> (or raises, when \<open>r\<close> is an error) and \<open>None\<close> when the loop goes on to
  the next selector.
\<close>

fun for_first :: "('a \<Rightarrow> 'b option) \<Rightarrow> 'a list \<Rightarrow> 'b option" where
  "for_first body [] = None"
| "for_first body (x # xs) =
     (case body x of Some r \<Rightarrow> Some r | None \<Rightarrow> for_first body xs)"

subsection \<open>Title\<close>

definition title_selectors :: "string list" where
  "title_selectors =
     [''h1.recipe-title'', ''h1[itemprop='' @ [CHR 0x22] @ ''name'' @ [CHR 0x22] @ '']'',
      ''h1.entry-title'', ''.recipe-header h1'', ''article h1'', ''h1'']"

definition title_strategy :: "soup \<Rightarrow> string \<Rightarrow> ustring option" where
  "title_strategy S selector =
     (case soup_select_one S selector of
        None \<Rightarrow> None
      | Some element \<Rightarrow> Some (get_text_strip element))"

text \<open>The pattern \<^verbatim>\<open>\s*[|, en dash, hyphen]\s*.+$\<close> that cuts the site name off a page title.\<close>

definition title_suffix :: pattern where
  "title_suffix =
     [Non (seqs [Star [Space], One [Ch 0x7C, Ch en_dash, Ch hyphen], Star [Space],
                 Plus [Dot], Eos])]"

definition untitled :: ustring where
  "untitled = [cyr_cap_er, cyr_ie, cyr_tse, cyr_ie, cyr_pe, cyr_te, blank,
               cyr_be, cyr_ie, cyr_ze, blank,
               cyr_en, cyr_a, cyr_ze, cyr_ve, cyr_a, cyr_en, cyr_i, cyr_ya]"

definition extract_title :: "interp \<Rightarrow> soup \<Rightarrow> ustring" where
  "extract_title U S =
     (case for_first (title_strategy S) title_selectors of
        Some r \<Rightarrow> r
      | None \<Rightarrow>
          (case soup_find S ''title'' of
             Some title_tag \<Rightarrow> re_sub_empty U title_suffix (get_text_strip title_tag)
           | None \<Rightarrow> untitled))"

subsection \<open>Description\<close>

definition description_selectors :: "string list" where
  "description_selectors =
     [''div.recipe-description'',
      ''div[itemprop='' @ [CHR 0x22] @ ''description'' @ [CHR 0x22] @ '']'',
      ''meta[name='' @ [CHR 0x22] @ ''description'' @ [CHR 0x22] @ '']'',
      ''meta[property='' @ [CHR 0x22] @ ''og:description'' @ [CHR 0x22] @ '']'',
      ''.recipe-intro'', ''article p:first-of-type'']"

definition startswith :: "string \<Rightarrow> string \<Rightarrow> bool" where
  "startswith s prefix \<longleftrightarrow> take (length prefix) s = prefix"

definition description_strategy :: "interp \<Rightarrow> soup \<Rightarrow> string \<Rightarrow> ustring option" where
  "description_strategy U S selector =
     (if startswith selector ''meta''
      then (case soup_select_one S selector of
              None \<Rightarrow> None
            | Some element \<Rightarrow>
                (case get_attr element ''content'' of
                   None \<Rightarrow> None
                 | Some content \<Rightarrow> if content \<noteq> [] then Some (strip U content) else None))
      else (case soup_select_one S selector of
              None \<Rightarrow> None
            | Some element \<Rightarrow> Some (get_text_strip element)))"

definition no_description :: ustring where
  "no_description = [cyr_cap_o, cyr_pe, cyr_i, cyr_es, cyr_a, cyr_en, cyr_i, cyr_ie, blank,
      cyr_o, cyr_te, cyr_es, cyr_u, cyr_te, cyr_es, cyr_te, cyr_ve, cyr_u, cyr_ie, cyr_te]"

definition extract_description :: "interp \<Rightarrow> soup \<Rightarrow> ustring" where
  "extract_description U S =
     (case for_first (description_strategy U S) description_selectors of
        Some r \<Rightarrow> r
      | None \<Rightarrow>
          (case take 3 (soup_find_all S [''p'']) of
             p # _ \<Rightarrow> get_text_strip p
           | [] \<Rightarrow> no_description))"

subsection \<open>Instructions\<close>

definition instructions_selectors :: "string list" where
  "instructions_selectors =
     [''div.recipe-instructions'',
      ''div[itemprop='' @ [CHR 0x22] @ ''recipeInstructions'' @ [CHR 0x22] @ '']'',
      ''ol.recipe-steps'', ''div.instructions'', ''.recipe-directions'']"

text \<open>The decimal numeral of a number, as an f-string prints it, and \<^verbatim>\<open>sep.join\<close>.\<close>

fun str_nat :: "nat \<Rightarrow> ustring" where
  "str_nat n = (if n < 10 then [0x30 + n] else str_nat (n div 10) @ [0x30 + n mod 10])"

declare str_nat.simps [simp del]

fun join :: "ustring \<Rightarrow> ustring list \<Rightarrow> ustring" where
  "join sep [] = []"
| "join sep [x] = x"
| "join sep (x # y # ys) = x @ sep @ join sep (y # ys)"

text \<open>
  The inner loop \<^verbatim>\<open>for i, step in enumerate(..., 1)\<close>: the number of a step is its
  position among all list items and paragraphs of the container.
\<close>

fun collect_steps :: "nat \<Rightarrow> element list \<Rightarrow> ustring list" where
  "collect_steps i [] = []"
| "collect_steps i (step # rest) =
     (let text = get_text_strip step
      in if text \<noteq> [] \<and> length text > 10
         then (str_nat i @ ascii ''. '' @ text) # collect_steps (Suc i) rest
         else collect_steps (Suc i) rest)"

definition instructions_strategy :: "soup \<Rightarrow> string \<Rightarrow> ustring option" where
  "instructions_strategy S selector =
     (case soup_select_one S selector of
        None \<Rightarrow> None
      | Some element \<Rightarrow>
          (let steps = collect_steps 1 (find_all element [''li'', ''p''])
           in if steps \<noteq> [] then Some (join [newline] steps) else None))"

text \<open>
  The fallback pattern, used with \<^verbatim>\<open>DOTALL\<close> and \<^verbatim>\<open>IGNORECASE\<close>: one of three heading
  words in a group, \<^verbatim>\<open>[:\s]+\<close>, the group \<^verbatim>\<open>(.*?)\<close>, and a look-ahead for the heading of
  the ingredients or the end of the text.
\<close>

definition instructions_heading :: pattern where
  "instructions_heading =
     [Cap (alts
        [word_i [cyr_cap_pe, cyr_er, cyr_i, cyr_ghe, cyr_o, cyr_te, cyr_o, cyr_ve, cyr_el,
                 cyr_ie, cyr_en, cyr_i, cyr_ie],
         word_i [cyr_cap_i, cyr_en, cyr_es, cyr_te, cyr_er, cyr_u, cyr_ka, cyr_tse, cyr_i,
                 cyr_ya],
         seqs [word_i [cyr_cap_es, cyr_pe, cyr_o, cyr_es, cyr_o, cyr_be], One [Ch blank],
               word_i [cyr_pe, cyr_er, cyr_i, cyr_ghe, cyr_o, cyr_te, cyr_o, cyr_ve, cyr_el,
                       cyr_ie, cyr_en, cyr_i, cyr_ya]]]),
      Non (Plus [Ch 0x3A, Space]),
      Cap (StarLazy [DotAll]),
      Non (Ahead (Alt (word_i [cyr_cap_i, cyr_en, cyr_ghe, cyr_er, cyr_ie, cyr_de, cyr_i,
                               cyr_ie, cyr_en, cyr_te, cyr_yeru]) Eos))]"

definition group :: "match \<Rightarrow> nat \<Rightarrow> py_error + ustring" where
  "group m i = (if 0 < i \<and> i \<le> length (fst m) then Inr (fst m ! (i - 1)) else Inl IndexError)"

definition no_instructions :: ustring where
  "no_instructions = [cyr_cap_i, cyr_en, cyr_es, cyr_te, cyr_er, cyr_u, cyr_ka, cyr_tse, cyr_i,
      cyr_i, blank,
      cyr_o, cyr_te, cyr_es, cyr_u, cyr_te, cyr_es, cyr_te, cyr_ve, cyr_u, cyr_yu, cyr_te]"

definition extract_instructions :: "interp \<Rightarrow> soup \<Rightarrow> py_error + ustring" where
  "extract_instructions U S =
     (case for_first (instructions_strategy S) instructions_selectors of
        Some r \<Rightarrow> Inr r
      | None \<Rightarrow>
          (case re_search U instructions_heading (soup_get_text S) of
             Some instructions_match \<Rightarrow>
               (case group instructions_match 2 of
                  Inl e \<Rightarrow> Inl e
                | Inr g \<Rightarrow> Inr (strip U g))
           | None \<Rightarrow> Inr no_instructions))"

subsection \<open>Cooking time and servings\<close>

text \<open>
  \<^verbatim>\<open>int(s)\<close> for a non-empty text of decimal digits, which is what the group of the
  patterns below holds. Python's integers are unbounded, but the conversion refuses a
  text of more digits than the interpreter's limit.
\<close>

definition py_int :: "interp \<Rightarrow> ustring \<Rightarrow> py_error + int" where
  "py_int U s =
     (if 0 < int_max_str_digits U \<and> int_max_str_digits U < length s then Inl ValueError
      else Inr (int (foldl (\<lambda>acc c. acc * 10 + decimal_value U c) 0 s)))"

definition digits :: pattern where
  "digits = [Cap (Plus [Digit])]"

text \<open>The body shared by the loops of the two extractors.\<close>

definition number_strategy :: "interp \<Rightarrow> soup \<Rightarrow> string \<Rightarrow> (py_error + int) option" where
  "number_strategy U S selector =
     (case soup_select_one S selector of
        None \<Rightarrow> None
      | Some element \<Rightarrow>
          (case re_search U digits (get_text element) of
             None \<Rightarrow> None
           | Some m \<Rightarrow>
               Some (case group m 1 of Inl e \<Rightarrow> Inl e | Inr g \<Rightarrow> py_int U g)))"

definition number_fallback :: "interp \<Rightarrow> pattern \<Rightarrow> ustring \<Rightarrow> int \<Rightarrow> py_error + int" where
  "number_fallback U pat all_text dflt =
     (case re_search U pat all_text of
        Some m \<Rightarrow> (case group m 1 of Inl e \<Rightarrow> Inl e | Inr g \<Rightarrow> py_int U g)
      | None \<Rightarrow> Inr dflt)"

definition cooking_time_selectors :: "string list" where
  "cooking_time_selectors =
     [''time[itemprop='' @ [CHR 0x22] @ ''totalTime'' @ [CHR 0x22] @ '']'',
      ''span.cooking-time'', ''.recipe-time'']"

definition minutes :: pattern where
  "minutes = [Cap (Plus [Digit]), Non (Seq (Star [Space]) (word [cyr_em, cyr_i, cyr_en]))]"

definition extract_cooking_time :: "interp \<Rightarrow> soup \<Rightarrow> py_error + int" where
  "extract_cooking_time U S =
     (case for_first (number_strategy U S) cooking_time_selectors of
        Some r \<Rightarrow> r
      | None \<Rightarrow> number_fallback U minutes (soup_get_text S) 30)"

definition servings_selectors :: "string list" where
  "servings_selectors =
     [''span[itemprop='' @ [CHR 0x22] @ ''recipeYield'' @ [CHR 0x22] @ '']'',
      ''.recipe-servings'', ''.servings'']"

definition portions :: pattern where
  "portions =
     [Cap (Plus [Digit]), Non (Seq (Star [Space]) (word [cyr_pe, cyr_o, cyr_er, cyr_tse]))]"

definition extract_servings :: "interp \<Rightarrow> soup \<Rightarrow> py_error + int" where
  "extract_servings U S =
     (case for_first (number_strategy U S) servings_selectors of
        Some r \<Rightarrow> r
      | None \<Rightarrow> number_fallback U portions (soup_get_text S) 4)"

section \<open>The ingredient list extractor\<close>

definition ingredients_selectors :: "string list" where
  "ingredients_selectors =
     [''ul.recipe-ingredients'',
      ''ul[itemprop='' @ [CHR 0x22] @ ''recipeIngredient'' @ [CHR 0x22] @ '']'',
      ''div.ingredients ul'', ''.ingredient-list'']"

text \<open>
  The inner loop over the items, which appends every parsed item to the accumulator
  \<^verbatim>\<open>ingredients\<close>; an item with empty text or an unparseable line is skipped.
\<close>

fun collect_items :: "interp \<Rightarrow> element list \<Rightarrow> ingredient list \<Rightarrow> py_error + ingredient list" where
  "collect_items U [] ingredients = Inr ingredients"
| "collect_items U (item # items) ingredients =
     (let text = get_text_strip item
      in if text \<noteq> []
         then (case parse_ingredient_string U text of
                 Inl e \<Rightarrow> Inl e
               | Inr None \<Rightarrow> collect_items U items ingredients
               | Inr (Some parsed) \<Rightarrow> collect_items U items (ingredients @ [parsed]))
         else collect_items U items ingredients)"

text \<open>
  The loop over the container selectors either returns the accumulator from inside the
  loop or runs to its end with the accumulator it has then.
\<close>

datatype 'a loop_exit = Returned 'a | Completed 'a

fun containers_loop ::
  "interp \<Rightarrow> soup \<Rightarrow> string list \<Rightarrow> ingredient list \<Rightarrow> py_error + ingredient list loop_exit" where
  "containers_loop U S [] ingredients = Inr (Completed ingredients)"
| "containers_loop U S (selector # selectors) ingredients =
     (case soup_select_one S selector of
        None \<Rightarrow> containers_loop U S selectors ingredients
      | Some element \<Rightarrow>
          (case collect_items U (find_all element [''li'']) ingredients of
             Inl e \<Rightarrow> Inl e
           | Inr ingredients' \<Rightarrow>
               if ingredients' \<noteq> [] then Inr (Returned ingredients')
               else containers_loop U S selectors ingredients'))"

definition placeholder_ingredients :: "ingredient list" where
  "placeholder_ingredients =
     [\<lparr> name = [cyr_cap_i, cyr_en, cyr_ghe, cyr_er, cyr_ie, cyr_de, cyr_i, cyr_ie, cyr_en,
                 cyr_te, blank, 0x31],
        quantity = ascii ''100'', unit = [cyr_ghe] \<rparr>,
      \<lparr> name = [cyr_cap_i, cyr_en, cyr_ghe, cyr_er, cyr_ie, cyr_de, cyr_i, cyr_ie, cyr_en,
                 cyr_te, blank, 0x32],
        quantity = ascii ''200'', unit = [cyr_em, cyr_el] \<rparr>]"

definition extract_ingredients :: "interp \<Rightarrow> soup \<Rightarrow> py_error + ingredient list" where
  "extract_ingredients U S =
     (case containers_loop U S ingredients_selectors [] of
        Inl e \<Rightarrow> Inl e
      | Inr (Returned ingredients) \<Rightarrow> Inr ingredients
      | Inr (Completed ingredients) \<Rightarrow>
          (case collect_items U (soup_find_all_class S [''li'', ''p''] ''ingredient'') ingredients of
             Inl e \<Rightarrow> Inl e
           | Inr ingredients' \<Rightarrow>
               Inr (if ingredients' = [] then placeholder_ingredients else ingredients')))"

section \<open>Fetching and the top-level parse\<close>

text \<open>
  What the \<^verbatim>\<open>try\<close> block of \<^verbatim>\<open>fetch_page\<close> can end with: an exception of the HTTP client
  (no connection, the ten-second timeout), of \<^verbatim>\<open>raise_for_status\<close> (an error status), of
  the HTML parser, or a parsed page. The network is outside the program, so this outcome
  is the input of the model.
\<close>

datatype fetch_exception = ConnectionError | Timeout | HTTPError nat | ParserError

type_synonym fetched = "fetch_exception + soup"

record parser =
  url :: ustring
  soup :: "soup option"

definition init :: "ustring \<Rightarrow> parser" where
  "init u = \<lparr> url = u, soup = None \<rparr>"

definition fetch_page :: "fetched \<Rightarrow> parser \<Rightarrow> bool \<times> parser" where
  "fetch_page response self =
     (case response of
        Inr page \<Rightarrow> (True, self\<lparr> soup := Some page \<rparr>)
      | Inl e \<Rightarrow> (False, self))"

record recipe =
  title :: ustring
  description :: ustring
  instructions :: ustring
  ingredients :: "ingredient list"
  cooking_time :: int
  servings :: int

text \<open>
  The six extractors in the order in which the dictionary display evaluates them; any of
  them raises \<^verbatim>\<open>AttributeError\<close> when \<^verbatim>\<open>self.soup\<close> is \<^verbatim>\<open>None\<close>, and an exception of one
  ends the evaluation.
\<close>

definition extract_all :: "interp \<Rightarrow> parser \<Rightarrow> py_error + recipe" where
  "extract_all U self =
     (case soup self of
        None \<Rightarrow> Inl AttributeError
      | Some S \<Rightarrow>
          (let t = extract_title U S; d = extract_description U S
           in case extract_instructions U S of
                Inl e \<Rightarrow> Inl e
              | Inr ins \<Rightarrow>
                  (case extract_ingredients U S of
                     Inl e \<Rightarrow> Inl e
                   | Inr ings \<Rightarrow>
                       (case extract_cooking_time U S of
                          Inl e \<Rightarrow> Inl e
                        | Inr ct \<Rightarrow>
                            (case extract_servings U S of
                               Inl e \<Rightarrow> Inl e
                             | Inr sv \<Rightarrow>
                                 Inr \<lparr> title = t, description = d, instructions = ins,
                                       ingredients = ings, cooking_time = ct,
                                       servings = sv \<rparr>)))))"

text \<open>
  \<^verbatim>\<open>parse_recipe\<close> returns the record, or \<^verbatim>\<open>None\<close> (here \<open>Inr None\<close>), together with the
  parser object as the call leaves it.
\<close>

definition parse_recipe :: "interp \<Rightarrow> fetched \<Rightarrow> parser \<Rightarrow> (py_error + recipe option) \<times> parser" where
  "parse_recipe U response self =
     (case fetch_page response self of
        (False, self') \<Rightarrow> (Inr None, self')
      | (True, self') \<Rightarrow>
          (case extract_all U self' of
             Inl e \<Rightarrow> (Inl e, self')
           | Inr recipe_data \<Rightarrow>
               if title recipe_data = [] then (Inr None, self')
               else (Inr (Some recipe_data), self')))"

section \<open>Notions used in the statements\<close>

text \<open>
  The expressions of the groups of a pattern, and the least number of characters a match
  of an expression or of a pattern consumes.
\<close>

fun caps :: "pattern \<Rightarrow> regex list" where
  "caps [] = []"
| "caps (Cap r # ps) = r # caps ps"
| "caps (Non r # ps) = caps ps"

fun piece_regex :: "piece \<Rightarrow> regex" where
  "piece_regex (Cap r) = r"
| "piece_regex (Non r) = r"

fun minlen :: "regex \<Rightarrow> nat" where
  "minlen Eps = 0"
| "minlen (One atoms) = 1"
| "minlen (Seq r1 r2) = minlen r1 + minlen r2"
| "minlen (Alt r1 r2) = min (minlen r1) (minlen r2)"
| "minlen (Opt r) = 0"
| "minlen (Star atoms) = 0"
| "minlen (Plus atoms) = 1"
| "minlen (StarLazy atoms) = 0"
| "minlen (PlusLazy atoms) = 1"
| "minlen (Ahead r) = 0"
| "minlen Eos = 0"

definition pminlen :: "pattern \<Rightarrow> nat" where
  "pminlen p = sum_list (map (minlen \<circ> piece_regex) p)"

text \<open>
  A digit run is a non-empty text of decimal digits; a quantity has the expected shape
  when it is a digit run, or a period with a digit run on each side.
\<close>

definition digit_run :: "interp \<Rightarrow> ustring \<Rightarrow> bool" where
  "digit_run U w \<longleftrightarrow> w \<noteq> [] \<and> list_all (isdecimal U) w"

definition quantity_shape :: "interp \<Rightarrow> ustring \<Rightarrow> bool" where
  "quantity_shape U q \<longleftrightarrow>
     digit_run U q \<or>
     list_ex (\<lambda>k. q ! k = period \<and> digit_run U (take k q) \<and> digit_run U (drop (Suc k) q))
       [0..<length q]"

text \<open>
  A text \<open>t\<close> is \<open>s\<close> trimmed when \<open>s\<close> is \<open>t\<close> between two runs of white space and \<open>t\<close>
  neither begins nor ends with white space.
\<close>

definition trimmed_from :: "interp \<Rightarrow> ustring \<Rightarrow> ustring \<Rightarrow> bool" where
  "trimmed_from U s t \<longleftrightarrow>
     list_ex (\<lambda>i. s = take i s @ t @ drop (i + length t) s \<and>
                  list_all (isspace U) (take i s) \<and>
                  list_all (isspace U) (drop (i + length t) s))
       [0..<Suc (length s)] \<and>
     (t = [] \<or> (\<not> isspace U (hd t) \<and> \<not> isspace U (last t)))"

text \<open>What the expression \<open>number\<close> matches: a digit run, or two with a period or a comma between.\<close>

definition number_raw :: "interp \<Rightarrow> ustring \<Rightarrow> bool" where
  "number_raw U w \<longleftrightarrow>
     digit_run U w \<or>
     (\<exists>a c b. w = a @ c # b \<and> digit_run U a \<and> digit_run U b \<and> (c = period \<or> c = comma))"

text \<open>
  The items of a container yield nothing when each has empty text or an unparseable
  line; a page yields no parsed item when this holds for the container of every selector
  that finds one and for the elements whose class mentions an ingredient.
\<close>

definition yields_nothing :: "interp \<Rightarrow> element list \<Rightarrow> bool" where
  "yields_nothing U items \<longleftrightarrow>
     list_all (\<lambda>item. get_text_strip item = [] \<or>
                      parse_ingredient_string U (get_text_strip item) = Inr None) items"

definition nothing_parsed :: "interp \<Rightarrow> soup \<Rightarrow> bool" where
  "nothing_parsed U S \<longleftrightarrow>
     list_all (\<lambda>selector. case soup_select_one S selector of
                             None \<Rightarrow> True
                           | Some element \<Rightarrow> yields_nothing U (find_all element [''li'']))
       ingredients_selectors \<and>
     yields_nothing U (soup_find_all_class S [''li'', ''p''] ''ingredient'')"

text \<open>Neither the cooking time nor the servings extractor raises.\<close>

definition numbers_convert :: "interp \<Rightarrow> soup \<Rightarrow> bool" where
  "numbers_convert U S \<longleftrightarrow> \<not> isl (extract_cooking_time U S) \<and> \<not> isl (extract_servings U S)"

text \<open>The first run of decimal digits of a text.\<close>

definition first_digits :: "interp \<Rightarrow> ustring \<Rightarrow> ustring" where
  "first_digits U text = takeWhile (isdecimal U) (dropWhile (\<lambda>c. \<not> isdecimal U c) text)"

text \<open>
  A strategy list is evaluated in order: the strategy at position \<open>i\<close> is the first to
  succeed, with result \<open>r\<close>, when it gives \<open>r\<close> and every earlier one gives nothing.
\<close>

definition first_hit :: "('a \<Rightarrow> 'b option) \<Rightarrow> 'a list \<Rightarrow> nat \<Rightarrow> 'b \<Rightarrow> bool" where
  "first_hit strategy xs i r \<longleftrightarrow>
     i < length xs \<and> strategy (xs ! i) = Some r \<and> list_all (\<lambda>x. strategy x = None) (take i xs)"

subsection \<open>Example pages\<close>

text \<open>A page on which every query finds nothing.\<close>

definition bare_page :: soup where
  "bare_page = \<lparr> soup_select_one = (\<lambda>selector. None), soup_find = (\<lambda>tag. None),
     soup_find_all = (\<lambda>tags. []), soup_find_all_class = (\<lambda>tags cls. []),
     soup_get_text = [] \<rparr>"

text \<open>
  The page \<^verbatim>\<open><ul class="ingredient-list"><li>i</li></ul>\<close>, the one item being the
  one-letter Russian word \<open>cyr_i\<close>.
\<close>

definition short_item_page :: soup where
  "short_item_page = \<lparr>
     soup_select_one = (\<lambda>selector. if selector = ''.ingredient-list''
        then Some (Element [cyr_i] [cyr_i] [(''class'', ascii ''ingredient-list'')]
                     [(''li'', Element [cyr_i] [cyr_i] [] [])])
        else None),
     soup_find = (\<lambda>tag. None),
     soup_find_all = (\<lambda>tags. []), soup_find_all_class = (\<lambda>tags cls. []),
     soup_get_text = [cyr_i] \<rparr>"

text \<open>
  The page \<^verbatim>\<open><h1 class="recipe-title"></h1><h1 itemprop="name">Sup</h1>\<close> (the Russian
  word for soup): the first heading is empty, and it is also the first \<^verbatim>\<open>h1\<close>.
\<close>

definition soup_word :: ustring where
  "soup_word = [cyr_cap_es, cyr_u, cyr_pe]"

definition empty_heading_page :: soup where
  "empty_heading_page = \<lparr>
     soup_select_one = (\<lambda>selector.
        if selector = ''h1.recipe-title'' \<or> selector = ''h1''
        then Some (Element [] [] [(''class'', ascii ''recipe-title'')] [])
        else if selector = ''h1[itemprop='' @ [CHR 0x22] @ ''name'' @ [CHR 0x22] @ '']''
        then Some (Element soup_word soup_word [(''itemprop'', ascii ''name'')] [])
        else None),
     soup_find = (\<lambda>tag. None),
     soup_find_all = (\<lambda>tags. []), soup_find_all_class = (\<lambda>tags cls. []),
     soup_get_text = soup_word \<rparr>"

text \<open>
  The page \<^verbatim>\<open><meta name="description" content=" Sup ">\<close>: the tag has no text of its
  own.
\<close>

definition meta_page :: soup where
  "meta_page = \<lparr>
     soup_select_one = (\<lambda>selector.
        if selector = ''meta[name='' @ [CHR 0x22] @ ''description'' @ [CHR 0x22] @ '']''
        then Some (Element [] [] [(''name'', ascii ''description''),
                                  (''content'', blank # soup_word @ [blank])] [])
        else None),
     soup_find = (\<lambda>tag. None),
     soup_find_all = (\<lambda>tags. []), soup_find_all_class = (\<lambda>tags cls. []),
     soup_get_text = [] \<rparr>"

section \<open>Facts about the unit normalizer\<close>

lemma lookup_unit_None:
  "lookup_unit x items = None \<longleftrightarrow> (\<forall>(key, val) \<in> set items. squash key \<noteq> x)"
proof (induction items)
  case Nil
  show ?case by simp
next
  case (Cons kv items)
  obtain key val where kv: "kv = (key, val)" by (cases kv)
  show ?case using Cons.IH by (simp add: kv)
qed

lemma lookup_unit_map:
  "\<forall>(key, val) \<in> set unit_map. lookup_unit (squash key) unit_map = Some val"
  by (simp add: unit_map_def squash_def remove1_char_def)

lemma canonical_units_eq:
  "canonical_units =
     [[cyr_ghe], [cyr_em, cyr_el], [cyr_ka, cyr_ghe], [cyr_el], [cyr_sha, cyr_te],
      [cyr_es, cyr_te, period, cyr_el, period], [cyr_che, period, cyr_el, period],
      [cyr_es, cyr_te, cyr_a, cyr_ka, cyr_a, cyr_en]]"
  by (simp add: canonical_units_def unit_map_def)

lemma canonical_is_key:
  "\<forall>u \<in> set canonical_units. lookup_unit (squash u) unit_map = Some u"
  by (simp add: canonical_units_eq unit_map_def squash_def remove1_char_def)

section \<open>Facts about the matcher\<close>

lemma rmatch_suffix: "rest \<in> set (rmatch U r s) \<Longrightarrow> \<exists>w. s = w @ rest"
proof (induction r arbitrary: s rest)
  case (One atoms)
  then show ?case by (auto split: list.splits if_splits)
next
  case (Seq r1 r2)
  then obtain mid where m: "mid \<in> set (rmatch U r1 s)" "rest \<in> set (rmatch U r2 mid)" by auto
  from Seq.IH(1)[OF m(1)] Seq.IH(2)[OF m(2)] show ?case by auto
next
  case (Star atoms)
  then obtain k where "rest = drop k s" by auto
  then show ?case by (metis append_take_drop_id)
next
  case (Plus atoms)
  then obtain k where "rest = drop k s" by auto
  then show ?case by (metis append_take_drop_id)
next
  case (StarLazy atoms)
  then obtain k where "rest = drop k s" by auto
  then show ?case by (metis append_take_drop_id)
next
  case (PlusLazy atoms)
  then obtain k where "rest = drop k s" by auto
  then show ?case by (metis append_take_drop_id)
qed (auto split: if_splits)

lemma rmatch_minlen: "rest \<in> set (rmatch U r s) \<Longrightarrow> length rest + minlen r \<le> length s"
proof (induction r arbitrary: s rest)
  case (One atoms)
  then show ?case by (auto split: list.splits if_splits)
next
  case (Seq r1 r2)
  then obtain mid where m: "mid \<in> set (rmatch U r1 s)" "rest \<in> set (rmatch U r2 mid)" by auto
  from Seq.IH(1)[OF m(1)] Seq.IH(2)[OF m(2)] show ?case by simp
next
  case (Alt r1 r2)
  then show ?case by fastforce
next
  case (Opt r)
  then show ?case using rmatch_suffix[of rest U r s] by auto
next
  case (Plus atoms)
  then obtain k where "rest = drop k s" "1 \<le> k" "k \<le> run U atoms s" by auto
  moreover have "run U atoms s \<le> length s" by (simp add: run_def length_takeWhile_le)
  ultimately show ?case by simp
next
  case (PlusLazy atoms)
  then obtain k where "rest = drop k s" "1 \<le> k" "k \<le> run U atoms s" by auto
  moreover have "run U atoms s \<le> length s" by (simp add: run_def length_takeWhile_le)
  ultimately show ?case by simp
qed (auto split: if_splits)

lemma pmatch_minlen:
  "(groups, fin) \<in> set (pmatch U p s) \<Longrightarrow> length fin + pminlen p \<le> length s"
proof (induction p arbitrary: s groups)
  case Nil
  then show ?case by (simp add: pminlen_def)
next
  case (Cons x p)
  show ?case
  proof (cases x)
    case (Cap r)
    with Cons.prems obtain rest g where r: "rest \<in> set (rmatch U r s)"
      and g: "(g, fin) \<in> set (pmatch U p rest)" by auto
    from rmatch_minlen[OF r] Cons.IH[OF g] show ?thesis by (simp add: Cap pminlen_def)
  next
    case (Non r)
    with Cons.prems obtain rest where r: "rest \<in> set (rmatch U r s)"
      and g: "(groups, fin) \<in> set (pmatch U p rest)" by auto
    from rmatch_minlen[OF r] Cons.IH[OF g] show ?thesis by (simp add: Non pminlen_def)
  qed
qed

lemma pmatch_groups:
  "(groups, fin) \<in> set (pmatch U p s) \<Longrightarrow>
     list_all2 (\<lambda>r g. \<exists>t. t \<in> set (rmatch U r (g @ t))) (caps p) groups"
proof (induction p arbitrary: s groups)
  case Nil
  then show ?case by simp
next
  case (Cons x p)
  show ?case
  proof (cases x)
    case (Cap r)
    with Cons.prems obtain rest g where r: "rest \<in> set (rmatch U r s)"
      and g: "(g, fin) \<in> set (pmatch U p rest)"
      and gr: "groups = take (length s - length rest) s # g" by auto
    from rmatch_suffix[OF r] obtain w where w: "s = w @ rest" by blast
    then have "take (length s - length rest) s = w" by simp
    with r w have "rest \<in> set (rmatch U r (take (length s - length rest) s @ rest))" by simp
    with Cons.IH[OF g] show ?thesis by (auto simp: Cap gr)
  next
    case (Non r)
    with Cons.prems obtain rest where r: "rest \<in> set (rmatch U r s)"
      and g: "(groups, fin) \<in> set (pmatch U p rest)" by auto
    from Cons.IH[OF g] show ?thesis by (simp add: Non)
  qed
qed

lemma plus_run:
  assumes "rest \<in> set (rmatch U (Plus atoms) s)"
  shows "\<exists>w. s = w @ rest \<and> w \<noteq> [] \<and> list_all (set_match U atoms) w"
proof -
  from assms obtain k where k: "rest = drop k s" "1 \<le> k" "k \<le> run U atoms s" by auto
  have le: "run U atoms s \<le> length s" by (simp add: run_def length_takeWhile_le)
  have "takeWhile (set_match U atoms) s = take (run U atoms s) s"
    unfolding run_def by (rule takeWhile_eq_take)
  then have "take k (takeWhile (set_match U atoms) s) = take k s"
    using k(3) by (simp add: min_def)
  then have "take k s = take k (takeWhile (set_match U atoms) s)" by simp
  then have "set (take k s) \<subseteq> set (takeWhile (set_match U atoms) s)"
    by (metis set_take_subset)
  then have "list_all (set_match U atoms) (take k s)"
    by (auto simp: list_all_iff dest: set_takeWhileD)
  moreover have "take k s \<noteq> []" using k(2) k(3) le by (cases s) auto
  moreover have "s = take k s @ rest" by (simp add: k(1))
  ultimately show ?thesis by blast
qed

section \<open>Facts about the per-item parser\<close>

lemma digit_atoms [simp]: "set_match U [Digit] = isdecimal U"
  by (rule ext) (simp add: set_match_def)

lemma number_matches:
  assumes "rest \<in> set (rmatch U number s)"
  shows "\<exists>w. s = w @ rest \<and> number_raw U w"
proof -
  from assms obtain mid where mid: "mid \<in> set (rmatch U (Plus [Digit]) s)"
    and rest: "rest \<in> set (rmatch U (Opt (Seq (One [Ch period, Ch comma]) (Plus [Digit]))) mid)"
    unfolding number_def by auto
  from plus_run[OF mid] obtain a where a: "s = a @ mid" "digit_run U a"
    by (auto simp: digit_run_def)
  from rest consider "rest = mid"
    | "rest \<in> set (rmatch U (Seq (One [Ch period, Ch comma]) (Plus [Digit])) mid)"
    by auto
  then show ?thesis
  proof cases
    case 1
    with a show ?thesis by (auto simp: number_raw_def)
  next
    case 2
    then obtain c mid' where c: "mid = c # mid'" "c = period \<or> c = comma"
      and b0: "rest \<in> set (rmatch U (Plus [Digit]) mid')"
      by (auto simp: set_match_def split: list.splits if_splits)
    from plus_run[OF b0] obtain b where b: "mid' = b @ rest" "digit_run U b"
      by (auto simp: digit_run_def)
    from a b c have "s = (a @ c # b) @ rest" by simp
    moreover from a b c have "number_raw U (a @ c # b)" unfolding number_raw_def by blast
    ultimately show ?thesis by blast
  qed
qed

lemma number_group:
  assumes "t \<in> set (rmatch U number (g @ t))"
  shows "number_raw U g"
  using number_matches[OF assms] by auto

lemma digit_run_replace:
  assumes "\<not> isdecimal U comma" "digit_run U a"
  shows "replace1 comma period a = a"
proof -
  from assms have "\<forall>c \<in> set a. c \<noteq> comma" by (auto simp: digit_run_def list_all_iff)
  then show ?thesis unfolding replace1_def by (induction a) auto
qed

lemma number_raw_shape:
  assumes nc: "\<not> isdecimal U comma" and raw: "number_raw U w"
  shows "replace1 comma period w \<noteq> [] \<and> comma \<notin> set (replace1 comma period w) \<and>
         quantity_shape U (replace1 comma period w)"
proof -
  have nocomma: "comma \<notin> set (replace1 comma period w)" by (auto simp: replace1_def)
  from raw consider "digit_run U w"
    | a c b where "w = a @ c # b" "digit_run U a" "digit_run U b" "c = period \<or> c = comma"
    unfolding number_raw_def by blast
  then show ?thesis
  proof cases
    case 1
    with digit_run_replace[OF nc 1] nocomma show ?thesis
      by (simp add: quantity_shape_def digit_run_def)
  next
    case 2
    let ?q = "a @ period # b"
    have q: "replace1 comma period w = ?q"
      using digit_run_replace[OF nc 2(2)] digit_run_replace[OF nc 2(3)] 2(1,4)
      by (auto simp: replace1_def)
    have "length a < length ?q" by simp
    moreover have "?q ! length a = period \<and> digit_run U (take (length a) ?q) \<and>
        digit_run U (drop (Suc (length a)) ?q)"
      using 2(2,3) by simp
    ultimately have "quantity_shape U ?q"
      unfolding quantity_shape_def list_ex_iff by (metis atLeast0LessThan lessThan_iff set_upt)
    with q nocomma show ?thesis by simp
  qed
qed

lemma re_match_SomeD: "re_match U p s = Some m \<Longrightarrow> m \<in> set (pmatch U p s)"
  by (auto simp: re_match_def split: list.splits)

lemma re_match_None: "re_match U p s = None \<longleftrightarrow> pmatch U p s = []"
  by (auto simp: re_match_def split: list.splits)

lemma quantity_first_groups:
  assumes "re_match U quantity_first s = Some m"
  shows "\<exists>q u n. fst m = [q, u, n] \<and> number_raw U q"
proof -
  obtain groups fin where m: "m = (groups, fin)" by (cases m)
  from re_match_SomeD[OF assms] m have "(groups, fin) \<in> set (pmatch U quantity_first s)" by simp
  from pmatch_groups[OF this] show ?thesis
    by (auto simp: m quantity_first_def list_all2_Cons1 dest: number_group)
qed

lemma name_first_groups:
  assumes "re_match U name_first s = Some m"
  shows "\<exists>n q u. fst m = [n, q, u] \<and> number_raw U q"
proof -
  obtain groups fin where m: "m = (groups, fin)" by (cases m)
  from re_match_SomeD[OF assms] m have "(groups, fin) \<in> set (pmatch U name_first s)" by simp
  from pmatch_groups[OF this] show ?thesis
    by (auto simp: m name_first_def list_all2_Cons1 dest: number_group)
qed

lemma patterns_differ: "name_first \<noteq> quantity_first"
  by (simp add: name_first_def quantity_first_def number_def)

lemma parse_quantity_first:
  assumes "re_match U quantity_first text = Some m" "fst m = [q, u, n]"
  shows "parse_ingredient_string U text =
     Inr (Some \<lparr> name = strip U n, quantity = replace1 comma period q,
                 unit = normalize_unit U (strip U u) \<rparr>)"
  using assms by (simp add: parse_ingredient_string_def patterns_def matched_def)

lemma parse_name_first:
  assumes "re_match U quantity_first text = None" "re_match U name_first text = Some m"
    "fst m = [n, q, u]"
  shows "parse_ingredient_string U text =
     Inr (Some \<lparr> name = strip U n, quantity = replace1 comma period q,
                 unit = normalize_unit U (strip U u) \<rparr>)"
  using assms patterns_differ by (simp add: parse_ingredient_string_def patterns_def matched_def)

lemma parse_unmatched:
  assumes "re_match U quantity_first text = None" "re_match U name_first text = None"
  shows "parse_ingredient_string U text =
     (if length text > 2
      then Inr (Some \<lparr> name = text, quantity = ascii ''1'', unit = [cyr_sha, cyr_te] \<rparr>)
      else Inr None)"
  using assms by (simp add: parse_ingredient_string_def patterns_def)

lemma pminlen_patterns: "pminlen quantity_first = 3" "pminlen name_first = 4"
  by (simp_all add: pminlen_def quantity_first_def name_first_def number_def unit_token_def
      alts_def seqs_def word_i_def)

lemma short_line_unmatched:
  assumes "length text \<le> 2"
  shows "re_match U quantity_first text = None \<and> re_match U name_first text = None"
proof -
  have "pmatch U quantity_first text = []"
  proof (rule ccontr)
    assume "pmatch U quantity_first text \<noteq> []"
    then obtain g f where "(g, f) \<in> set (pmatch U quantity_first text)"
      by (cases "pmatch U quantity_first text") auto
    from pmatch_minlen[OF this] assms show False by (simp add: pminlen_patterns)
  qed
  moreover have "pmatch U name_first text = []"
  proof (rule ccontr)
    assume "pmatch U name_first text \<noteq> []"
    then obtain g f where "(g, f) \<in> set (pmatch U name_first text)"
      by (cases "pmatch U name_first text") auto
    from pmatch_minlen[OF this] assms show False by (simp add: pminlen_patterns)
  qed
  ultimately show ?thesis by (simp add: re_match_None)
qed

lemma parse_never_raises: "parse_ingredient_string U text \<noteq> Inl e"
proof (cases "re_match U quantity_first text")
  case (Some m)
  from quantity_first_groups[OF Some] obtain q u n where "fst m = [q, u, n]" by blast
  from parse_quantity_first[OF Some this] show ?thesis by simp
next
  case None
  show ?thesis
  proof (cases "re_match U name_first text")
    case (Some m)
    from name_first_groups[OF Some] obtain n q u where "fst m = [n, q, u]" by blast
    from parse_name_first[OF None Some this] show ?thesis by simp
  next
    case None2: None
    from parse_unmatched[OF None None2] show ?thesis by simp
  qed
qed

text \<open>The definitions to unfold when an example is evaluated.\<close>

lemmas eval_defs = parse_ingredient_string_def patterns_def quantity_first_def name_first_def
  number_def unit_token_def dashes_def re_match_def matched_def seqs_def alts_def word_i_def
  word_def set_match_def run_def ascii_def interp_ru_def ru_isspace_def ru_isdecimal_def
  ru_isalpha_def ru_lower_def ru_fixes_def strip_def replace1_def normalize_unit_def
  unit_map_def squash_def remove1_char_def upt_rec

lemma flour_parsed:
  "parse_ingredient_string interp_ru (ascii ''500,5 '' @ [cyr_ghe, blank, cyr_em, cyr_u, cyr_ka, cyr_i]) =
     Inr (Some \<lparr> name = [cyr_em, cyr_u, cyr_ka, cyr_i], quantity = ascii ''500.5'',
                 unit = [cyr_ghe] \<rparr>)"
  by (simp add: eval_defs)

lemma spoon_both:
  "re_match interp_ru quantity_first
      (ascii ''2 '' @ [cyr_es, cyr_te, period, cyr_el, period] @ ascii '' - 3 '' @ [cyr_ghe]) =
     Some ([ascii ''2'', [cyr_es, cyr_te, period, cyr_el, period], ascii ''3 '' @ [cyr_ghe]], [])"
  "re_match interp_ru name_first
      (ascii ''2 '' @ [cyr_es, cyr_te, period, cyr_el, period] @ ascii '' - 3 '' @ [cyr_ghe]) =
     Some ([ascii ''2 '' @ [cyr_es, cyr_te, period, cyr_el, period], ascii ''3'', [cyr_ghe]], [])"
  by (simp_all add: eval_defs)

lemma collect_items_skip:
  assumes "parse_ingredient_string U (get_text_strip item) = Inr None"
  shows "collect_items U (item # items) acc = collect_items U items acc"
  using assms by (simp add: Let_def)

lemma salt_unmatched:
  "re_match interp_ru quantity_first [cyr_es, cyr_o, cyr_el, cyr_i] = None \<and>
   re_match interp_ru name_first [cyr_es, cyr_o, cyr_el, cyr_i] = None"
  by (simp add: eval_defs)

lemma salt_parsed:
  "parse_ingredient_string interp_ru
      ([cyr_cap_es, cyr_o, cyr_el, blank, en_dash] @ ascii '' 0,5 '' @
       [cyr_che, period, blank, cyr_cap_el, period]) =
     Inr (Some \<lparr> name = [cyr_cap_es, cyr_o, cyr_el], quantity = ascii ''0.5'',
                 unit = [cyr_che, period, cyr_el, period] \<rparr>)"
  by (simp add: eval_defs)

lemma salt_whole_line:
  "parse_ingredient_string interp_ru [cyr_es, cyr_o, cyr_el, cyr_i] =
     Inr (Some \<lparr> name = [cyr_es, cyr_o, cyr_el, cyr_i], quantity = ascii ''1'',
                 unit = [cyr_sha, cyr_te] \<rparr>)"
  by (simp add: eval_defs)

lemma interp_ru_digits: "\<not> isdecimal interp_ru comma" "isdecimal interp_ru 0x31"
  by (simp_all add: interp_ru_def ru_isdecimal_def)

section \<open>Facts about the ingredient list extractor\<close>

lemma collect_items_result:
  "\<exists>ys. collect_items U items acc = Inr (acc @ ys) \<and> (yields_nothing U items \<longrightarrow> ys = [])"
proof (induction items arbitrary: acc)
  case Nil
  show ?case by (simp add: yields_nothing_def)
next
  case (Cons item items)
  show ?case
  proof (cases "get_text_strip item = []")
    case True
    with Cons.IH[of acc] show ?thesis by (simp add: yields_nothing_def)
  next
    case False
    show ?thesis
    proof (cases "parse_ingredient_string U (get_text_strip item)")
      case (Inl e)
      with parse_never_raises show ?thesis by blast
    next
      case (Inr res)
      show ?thesis
      proof (cases res)
        case None
        with Inr False Cons.IH[of acc] show ?thesis by (simp add: yields_nothing_def)
      next
        case (Some parsed)
        from Cons.IH[of "acc @ [parsed]"] obtain ys
          where "collect_items U items (acc @ [parsed]) = Inr ((acc @ [parsed]) @ ys)" by blast
        with Inr False Some show ?thesis by (simp add: yields_nothing_def)
      qed
    qed
  qed
qed

lemma containers_loop_result:
  "(\<exists>xs. containers_loop U S selectors [] = Inr (Returned xs) \<and> xs \<noteq> [] \<and>
      \<not> list_all (\<lambda>selector. case soup_select_one S selector of
                             None \<Rightarrow> True
                           | Some element \<Rightarrow> yields_nothing U (find_all element [''li'']))
          selectors) \<or>
   containers_loop U S selectors [] = Inr (Completed [])"
proof (induction selectors)
  case Nil
  show ?case by simp
next
  case (Cons selector selectors)
  show ?case
  proof (cases "soup_select_one S selector")
    case None
    with Cons.IH show ?thesis by auto
  next
    case (Some element)
    from collect_items_result[of U "find_all element [''li'']" "[]"] obtain ys
      where ys: "collect_items U (find_all element [''li'']) [] = Inr ys"
        and n: "yields_nothing U (find_all element [''li'']) \<longrightarrow> ys = []" by auto
    show ?thesis
    proof (cases "ys = []")
      case True
      with Some ys Cons.IH show ?thesis by auto
    next
      case False
      with Some ys n show ?thesis by auto
    qed
  qed
qed

lemma extract_ingredients_result:
  "\<exists>xs. extract_ingredients U S = Inr xs \<and> xs \<noteq> [] \<and>
        (nothing_parsed U S \<longrightarrow> xs = placeholder_ingredients)"
proof -
  from containers_loop_result[of U S ingredients_selectors]
  consider xs where "containers_loop U S ingredients_selectors [] = Inr (Returned xs)" "xs \<noteq> []"
      "\<not> nothing_parsed U S"
    | "containers_loop U S ingredients_selectors [] = Inr (Completed [])"
    unfolding nothing_parsed_def by blast
  then show ?thesis
  proof cases
    case 1
    then show ?thesis by (simp add: extract_ingredients_def)
  next
    case 2
    from collect_items_result[of U "soup_find_all_class S [''li'', ''p''] ''ingredient''" "[]"]
    obtain ys where ys: "collect_items U (soup_find_all_class S [''li'', ''p''] ''ingredient'') [] = Inr ys"
      and n: "yields_nothing U (soup_find_all_class S [''li'', ''p''] ''ingredient'') \<longrightarrow> ys = []"
      by auto
    have "placeholder_ingredients \<noteq> []" by (simp add: placeholder_ingredients_def)
    with 2 ys n show ?thesis by (auto simp: extract_ingredients_def nothing_parsed_def)
  qed
qed

lemma short_item_nothing: "nothing_parsed interp_ru short_item_page"
  by (simp add: nothing_parsed_def yields_nothing_def short_item_page_def ingredients_selectors_def
      find_all_def eval_defs)

section \<open>Facts about the field extractors\<close>

lemma for_first_hit: "first_hit strategy xs i r \<Longrightarrow> for_first strategy xs = Some r"
proof (induction xs arbitrary: i)
  case Nil
  then show ?case by (simp add: first_hit_def)
next
  case (Cons x xs)
  show ?case
  proof (cases i)
    case 0
    with Cons.prems show ?thesis by (simp add: first_hit_def)
  next
    case (Suc j)
    with Cons.prems have "strategy x = None" and "first_hit strategy xs j r"
      by (simp_all add: first_hit_def)
    with Cons.IH show ?thesis by simp
  qed
qed

lemma for_first_SomeD: "for_first strategy xs = Some r \<Longrightarrow> \<exists>x \<in> set xs. strategy x = Some r"
  by (induction xs) (auto split: option.splits)

lemma for_first_None: "for_first strategy xs = None \<longleftrightarrow> list_all (\<lambda>x. strategy x = None) xs"
  by (induction xs) (auto split: option.splits)

lemma re_search_SomeD: "re_search U p s = Some m \<Longrightarrow> \<exists>t. m \<in> set (pmatch U p t)"
proof (induction s)
  case Nil
  then show ?case by (auto dest: re_match_SomeD)
next
  case (Cons c cs)
  then show ?case by (auto split: option.splits dest: re_match_SomeD)
qed

lemma group_defined:
  assumes "m \<in> set (pmatch U p t)" "0 < i" "i \<le> length (caps p)"
  shows "\<exists>g. group m i = Inr g"
proof -
  obtain groups fin where m: "m = (groups, fin)" by (cases m)
  from assms(1) pmatch_groups[of groups fin U p t] have "length groups = length (caps p)"
    by (auto simp: m dest: list_all2_lengthD)
  with assms(2,3) show ?thesis by (simp add: group_def m)
qed

lemma extract_instructions_ok: "\<exists>r. extract_instructions U S = Inr r"
proof (cases "for_first (instructions_strategy S) instructions_selectors")
  case (Some r)
  then show ?thesis by (simp add: extract_instructions_def)
next
  case None
  show ?thesis
  proof (cases "re_search U instructions_heading (soup_get_text S)")
    case N: None
    with None show ?thesis by (simp add: extract_instructions_def)
  next
    case (Some m)
    from re_search_SomeD[OF Some] obtain t where "m \<in> set (pmatch U instructions_heading t)" by blast
    from group_defined[OF this, of 2] obtain g where "group m 2 = Inr g"
      by (auto simp: instructions_heading_def)
    with None Some show ?thesis by (simp add: extract_instructions_def)
  qed
qed

lemma py_int_result:
  "(\<exists>n. py_int U g = Inr n) \<or> (py_int U g = Inl ValueError \<and> 0 < int_max_str_digits U)"
  by (simp add: py_int_def)

lemma number_strategy_ok:
  assumes "number_strategy U S selector = Some r"
  shows "(\<exists>n. r = Inr n) \<or> (r = Inl ValueError \<and> 0 < int_max_str_digits U)"
proof -
  from assms obtain element m where "re_search U digits (get_text element) = Some m"
    and r: "r = (case group m 1 of Inl e \<Rightarrow> Inl e | Inr g \<Rightarrow> py_int U g)"
    by (auto simp: number_strategy_def split: option.splits)
  from re_search_SomeD[OF this(1)] obtain t where "m \<in> set (pmatch U digits t)" by blast
  from group_defined[OF this, of 1] obtain g where "group m 1 = Inr g"
    by (auto simp: digits_def)
  with r py_int_result[of U g] show ?thesis by auto
qed

lemma number_fallback_ok:
  assumes "length (caps pat) = 1"
  shows "(\<exists>n. number_fallback U pat all_text dflt = Inr n) \<or>
         (number_fallback U pat all_text dflt = Inl ValueError \<and> 0 < int_max_str_digits U)"
proof (cases "re_search U pat all_text")
  case None
  then show ?thesis by (simp add: number_fallback_def)
next
  case (Some m)
  from re_search_SomeD[OF Some] obtain t where "m \<in> set (pmatch U pat t)" by blast
  from group_defined[OF this, of 1] assms obtain g where "group m 1 = Inr g" by auto
  with Some py_int_result[of U g] show ?thesis by (auto simp: number_fallback_def)
qed

lemma extract_cooking_time_ok:
  "(\<exists>n. extract_cooking_time U S = Inr n) \<or>
   (extract_cooking_time U S = Inl ValueError \<and> 0 < int_max_str_digits U)"
proof (cases "for_first (number_strategy U S) cooking_time_selectors")
  case None
  with number_fallback_ok[of minutes U "soup_get_text S" 30] show ?thesis
    by (simp add: extract_cooking_time_def minutes_def)
next
  case (Some r)
  from for_first_SomeD[OF Some] number_strategy_ok
  have "(\<exists>n. r = Inr n) \<or> (r = Inl ValueError \<and> 0 < int_max_str_digits U)" by blast
  with Some show ?thesis by (simp add: extract_cooking_time_def)
qed

lemma extract_servings_ok:
  "(\<exists>n. extract_servings U S = Inr n) \<or>
   (extract_servings U S = Inl ValueError \<and> 0 < int_max_str_digits U)"
proof (cases "for_first (number_strategy U S) servings_selectors")
  case None
  with number_fallback_ok[of portions U "soup_get_text S" 4] show ?thesis
    by (simp add: extract_servings_def portions_def)
next
  case (Some r)
  from for_first_SomeD[OF Some] number_strategy_ok
  have "(\<exists>n. r = Inr n) \<or> (r = Inl ValueError \<and> 0 < int_max_str_digits U)" by blast
  with Some show ?thesis by (simp add: extract_servings_def)
qed

lemma numbers_convert_unlimited:
  assumes "int_max_str_digits U = 0"
  shows "numbers_convert U S"
  using assms extract_cooking_time_ok[of U S] extract_servings_ok[of U S]
  by (auto simp: numbers_convert_def)

lemma extract_all_result:
  assumes "soup self = Some S"
  shows "\<exists>ins ings. extract_all U self =
     (case extract_cooking_time U S of
        Inl e \<Rightarrow> Inl e
      | Inr ct \<Rightarrow>
          (case extract_servings U S of
             Inl e \<Rightarrow> Inl e
           | Inr sv \<Rightarrow>
               Inr \<lparr> title = extract_title U S, description = extract_description U S,
                     instructions = ins, ingredients = ings, cooking_time = ct,
                     servings = sv \<rparr>))"
proof -
  from extract_instructions_ok obtain ins where 1: "extract_instructions U S = Inr ins" by blast
  from extract_ingredients_result obtain ings where 2: "extract_ingredients U S = Inr ings" by blast
  from assms 1 2 have "extract_all U self =
     (case extract_cooking_time U S of
        Inl e \<Rightarrow> Inl e
      | Inr ct \<Rightarrow>
          (case extract_servings U S of
             Inl e \<Rightarrow> Inl e
           | Inr sv \<Rightarrow>
               Inr \<lparr> title = extract_title U S, description = extract_description U S,
                     instructions = ins, ingredients = ings, cooking_time = ct,
                     servings = sv \<rparr>))"
    by (simp add: extract_all_def)
  then show ?thesis by blast
qed

lemma digits_at_digit:
  assumes "isdecimal U c"
  shows "re_match U digits (c # cs) =
     Some ([takeWhile (isdecimal U) (c # cs)], dropWhile (isdecimal U) (c # cs))"
proof -
  let ?s = "c # cs"
  let ?n = "run U [Digit] ?s"
  have n: "?n = length (takeWhile (isdecimal U) ?s)" by (simp add: run_def)
  with assms have pos: "1 \<le> ?n" by simp
  have le: "?n \<le> length ?s" unfolding n by (rule length_takeWhile_le)
  from pos have "[1..<Suc ?n] = [1..<?n] @ [?n]" by (simp add: upt_Suc_append)
  then have "rmatch U (Plus [Digit]) ?s = drop ?n ?s # map (\<lambda>k. drop k ?s) (rev [1..<?n])"
    by simp
  moreover have "take ?n ?s = takeWhile (isdecimal U) ?s"
    unfolding n by (rule takeWhile_eq_take[symmetric])
  moreover have "drop ?n ?s = dropWhile (isdecimal U) ?s"
    unfolding n by (rule dropWhile_eq_drop[symmetric])
  moreover have "length ?s - length (drop ?n ?s) = ?n" using le by simp
  ultimately show ?thesis
    unfolding re_match_def digits_def by (simp del: rmatch.simps upt_Suc)
qed

lemma digits_at_other:
  assumes "\<not> isdecimal U c"
  shows "re_match U digits (c # cs) = None"
  using assms by (simp add: re_match_def digits_def run_def)

lemma digits_search:
  "re_search U digits text =
     (if list_ex (isdecimal U) text
      then Some ([first_digits U text],
                 dropWhile (isdecimal U) (dropWhile (\<lambda>c. \<not> isdecimal U c) text))
      else None)"
proof (induction "text")
  case Nil
  show ?case by (simp add: re_match_def digits_def run_def)
next
  case (Cons c cs)
  show ?case
  proof (cases "isdecimal U c")
    case True
    from digits_at_digit[OF True, of cs] True show ?thesis by (simp add: first_digits_def)
  next
    case False
    from digits_at_other[OF False, of cs] False Cons.IH show ?thesis
      by (simp add: first_digits_def)
  qed
qed

lemma number_strategy_found:
  assumes "soup_select_one S selector = Some element"
  shows "number_strategy U S selector =
     (if list_ex (isdecimal U) (get_text element)
      then Some (py_int U (first_digits U (get_text element))) else None)"
  using assms by (simp add: number_strategy_def digits_search group_def)

lemma parse_recipe_result:
  "\<exists>ins ings. fst (parse_recipe U (Inr S) self) =
     (case extract_cooking_time U S of
        Inl e \<Rightarrow> Inl e
      | Inr ct \<Rightarrow>
          (case extract_servings U S of
             Inl e \<Rightarrow> Inl e
           | Inr sv \<Rightarrow>
               if extract_title U S = [] then Inr None
               else Inr (Some \<lparr> title = extract_title U S,
                                 description = extract_description U S,
                                 instructions = ins, ingredients = ings, cooking_time = ct,
                                 servings = sv \<rparr>)))"
proof -
  have "soup (self\<lparr> soup := Some S \<rparr>) = Some S" by simp
  from extract_all_result[OF this, of U] obtain ins ings
    where r: "extract_all U (self\<lparr> soup := Some S \<rparr>) =
     (case extract_cooking_time U S of
        Inl e \<Rightarrow> Inl e
      | Inr ct \<Rightarrow>
          (case extract_servings U S of
             Inl e \<Rightarrow> Inl e
           | Inr sv \<Rightarrow>
               Inr \<lparr> title = extract_title U S, description = extract_description U S,
                     instructions = ins, ingredients = ings, cooking_time = ct,
                     servings = sv \<rparr>))"
    by blast
  have "fst (parse_recipe U (Inr S) self) =
     (case extract_cooking_time U S of
        Inl e \<Rightarrow> Inl e
      | Inr ct \<Rightarrow>
          (case extract_servings U S of
             Inl e \<Rightarrow> Inl e
           | Inr sv \<Rightarrow>
               if extract_title U S = [] then Inr None
               else Inr (Some \<lparr> title = extract_title U S,
                                 description = extract_description U S,
                                 instructions = ins, ingredients = ings, cooking_time = ct,
                                 servings = sv \<rparr>)))"
    by (simp add: parse_recipe_def fetch_page_def r split: sum.splits)
  then show ?thesis by blast
qed

lemma title_exhausted:
  assumes "list_all (\<lambda>selector. soup_select_one S selector = None) title_selectors"
    and "soup_find S ''title'' = None"
  shows "extract_title U S = untitled"
proof -
  from assms(1) have "list_all (\<lambda>selector. title_strategy S selector = None) title_selectors"
    by (simp add: title_strategy_def list_all_iff)
  then have "for_first (title_strategy S) title_selectors = None" by (simp add: for_first_None)
  with assms(2) show ?thesis by (simp add: extract_title_def)
qed

lemma untitled_not_empty: "untitled \<noteq> []"
  by (simp add: untitled_def)

lemmas page_defs = bare_page_def extract_title_def title_selectors_def title_strategy_def
  extract_description_def description_selectors_def description_strategy_def startswith_def
  extract_instructions_def instructions_selectors_def instructions_strategy_def
  instructions_heading_def extract_cooking_time_def cooking_time_selectors_def
  number_strategy_def number_fallback_def minutes_def extract_servings_def servings_selectors_def
  portions_def extract_ingredients_def ingredients_selectors_def parse_recipe_def fetch_page_def
  extract_all_def init_def get_attr_def find_all_def

lemma bare_page_exhausted:
  "list_all (\<lambda>selector. soup_select_one bare_page selector = None) title_selectors \<and>
   soup_find bare_page ''title'' = None"
  by (simp add: bare_page_def title_selectors_def)

lemma strategies_found:
  assumes "soup_select_one S selector = Some element"
  shows "title_strategy S selector = Some (get_text_strip element)"
    and "\<not> startswith selector ''meta'' \<Longrightarrow>
           description_strategy U S selector = Some (get_text_strip element)"
    and "startswith selector ''meta'' \<Longrightarrow>
           description_strategy U S selector =
             (case get_attr element ''content'' of
                None \<Rightarrow> None
              | Some content \<Rightarrow> if content = [] then None else Some (strip U content))"
    and "instructions_strategy S selector =
           (let steps = collect_steps 1 (find_all element [''li'', ''p''])
            in if steps = [] then None else Some (join [newline] steps))"
  using assms
  by (auto simp: title_strategy_def description_strategy_def instructions_strategy_def Let_def
      split: option.splits)

lemma strategies_not_found:
  assumes "soup_select_one S selector = None"
  shows "title_strategy S selector = None \<and> description_strategy U S selector = None \<and>
         instructions_strategy S selector = None \<and> number_strategy U S selector = None"
  using assms
  by (simp add: title_strategy_def description_strategy_def instructions_strategy_def
      number_strategy_def)

lemma empty_heading_hit:
  "first_hit (title_strategy empty_heading_page) title_selectors 0 []"
  by (simp add: first_hit_def empty_heading_page_def title_selectors_def title_strategy_def)

lemma meta_hit:
  "first_hit (description_strategy interp_ru meta_page) description_selectors 2 soup_word"
  by (simp add: first_hit_def meta_page_def description_selectors_def description_strategy_def
      startswith_def get_attr_def strip_def soup_word_def interp_ru_def ru_isspace_def
      numeral_2_eq_2)

lemma strip_split:
  "\<exists>a b. s = a @ strip U s @ b \<and> list_all (isspace U) a \<and> list_all (isspace U) b"
proof -
  let ?P = "isspace U"
  let ?s1 = "dropWhile ?P s"
  let ?a = "takeWhile ?P s"
  let ?b = "rev (takeWhile ?P (rev ?s1))"
  have "rev (takeWhile ?P (rev ?s1) @ dropWhile ?P (rev ?s1)) = ?s1"
    by (simp only: takeWhile_dropWhile_id rev_rev_ident)
  then have "rev (dropWhile ?P (rev ?s1)) @ ?b = ?s1" by (simp only: rev_append)
  then have s1: "?s1 = strip U s @ ?b" by (simp only: strip_def)
  have "s = ?a @ ?s1" by simp
  with s1 have "s = ?a @ strip U s @ ?b" by simp
  moreover have "list_all ?P ?a" by (auto simp: list_all_iff dest: set_takeWhileD)
  moreover have "list_all ?P ?b" by (auto simp: list_all_iff dest: set_takeWhileD)
  ultimately show ?thesis by blast
qed

lemma strip_ends:
  assumes "strip U s \<noteq> []"
  shows "\<not> isspace U (hd (strip U s)) \<and> \<not> isspace U (last (strip U s))"
proof -
  let ?P = "isspace U"
  let ?s1 = "dropWhile ?P s"
  let ?d = "dropWhile ?P (rev ?s1)"
  from assms have d: "?d \<noteq> []" by (simp add: strip_def)
  then have s1: "?s1 \<noteq> []" by (metis dropWhile.simps(1) rev.simps(1))
  from d have "\<not> ?P (hd ?d)" by (rule hd_dropWhile)
  with d have l: "\<not> ?P (last (strip U s))" by (simp add: strip_def last_rev)
  have "rev ?s1 = takeWhile ?P (rev ?s1) @ ?d" by simp
  with d have "last (rev ?s1) = last ?d" by (metis last_appendR)
  with s1 have "last ?d = hd ?s1" by (simp add: last_rev)
  moreover from s1 have "\<not> ?P (hd ?s1)" by (rule hd_dropWhile)
  ultimately have "\<not> ?P (last ?d)" by simp
  with d have "\<not> ?P (hd (strip U s))" by (simp add: strip_def hd_rev)
  with l show ?thesis by simp
qed

lemma strip_trimmed: "trimmed_from U s (strip U s)"
proof -
  from strip_split[of s U] obtain a b where ab: "s = a @ strip U s @ b"
    "list_all (isspace U) a" "list_all (isspace U) b" by blast
  let ?t = "strip U s"
  from ab(1) have la: "length a < Suc (length s)"
    by (metis le_add1 le_imp_less_Suc length_append)
  from ab(1) have ta: "take (length a) s = a"
    by (metis append_eq_conv_conj)
  from ab(1) have db: "drop (length a + length ?t) s = b"
    by (metis append_eq_conv_conj append.assoc length_append)
  from ab ta db have "s = take (length a) s @ ?t @ drop (length a + length ?t) s \<and>
      list_all (isspace U) (take (length a) s) \<and>
      list_all (isspace U) (drop (length a + length ?t) s)" by simp
  with la have "list_ex (\<lambda>i. s = take i s @ ?t @ drop (i + length ?t) s \<and>
                  list_all (isspace U) (take i s) \<and>
                  list_all (isspace U) (drop (i + length ?t) s)) [0..<Suc (length s)]"
    unfolding list_ex_iff by (metis atLeast0LessThan lessThan_iff set_upt)
  with strip_ends[of U s] show ?thesis unfolding trimmed_from_def by blast
qed

lemma flour_newline:
  "re_match interp_ru quantity_first
      (ascii ''500 '' @ [cyr_ghe, blank, cyr_em, cyr_u, cyr_ka, cyr_i, blank, newline, cyr_i]) =
     Some ([ascii ''500'', [cyr_ghe], [cyr_em, cyr_u, cyr_ka, cyr_i, blank]], [newline, cyr_i])"
  by (simp add: eval_defs)

lemma salt_leading_blank:
  "re_match interp_ru quantity_first
      ([blank, cyr_cap_es, cyr_o, cyr_el, blank, en_dash] @ ascii '' 0,5 '' @
       [cyr_che, period, blank, cyr_cap_el, period]) = None \<and>
   re_match interp_ru name_first
      ([blank, cyr_cap_es, cyr_o, cyr_el, blank, en_dash] @ ascii '' 0,5 '' @
       [cyr_che, period, blank, cyr_cap_el, period]) =
     Some ([[blank, cyr_cap_es, cyr_o, cyr_el], ascii ''0,5'',
            [cyr_che, period, blank, cyr_cap_el, period]], [])"
  by (simp add: eval_defs)

section \<open>The claims about the unit normalizer\<close>

text \<open>
  C3. Every canonical unit (a value of the dictionary: the eight units of the fixed
  vocabulary) is normalized to itself, and every text that differs from a key of the
  dictionary only in letter case and in periods and blanks is normalized to the value of
  that key. The first part needs that lower-casing leaves the canonical units, which
  are in lower case, as they are.
\<close>

theorem normalize_unit_canonical_and_variants:
  assumes "\<forall>u \<in> set canonical_units. str_lower U u = u"
  shows "(\<forall>u \<in> set canonical_units. normalize_unit U u = u) \<and>
         (\<forall>(key, val) \<in> set unit_map. \<forall>v.
            squash (str_lower U v) = squash key \<longrightarrow> normalize_unit U v = val)"
proof (intro conjI ballI)
  fix u assume u: "u \<in> set canonical_units"
  with assms have "str_lower U u = u" by blast
  moreover from u canonical_is_key have "lookup_unit (squash u) unit_map = Some u" by blast
  ultimately show "normalize_unit U u = u" by (simp add: normalize_unit_def)
next
  fix kv assume kv: "kv \<in> set unit_map"
  obtain key val where [simp]: "kv = (key, val)" by (cases kv)
  from kv lookup_unit_map have "lookup_unit (squash key) unit_map = Some val" by auto
  then show "case kv of (key, val) \<Rightarrow>
      \<forall>v. squash (str_lower U v) = squash key \<longrightarrow> normalize_unit U v = val"
    by (simp add: normalize_unit_def)
qed

theorem normalize_unit_canonical_and_variants_witness:
  "list_all (\<lambda>u. str_lower interp_ru u = u) canonical_units \<and>
   normalize_unit interp_ru [cyr_ka, cyr_ghe] = [cyr_ka, cyr_ghe] \<and>
   normalize_unit interp_ru [cyr_cap_es, cyr_te, period, cyr_cap_el, period] =
     [cyr_es, cyr_te, period, cyr_el, period] \<and>
   normalize_unit interp_ru [cyr_es, cyr_te, blank, cyr_el] =
     [cyr_es, cyr_te, period, cyr_el, period] \<and>
   normalize_unit interp_ru [cyr_es, cyr_te, period, cyr_el] =
     [cyr_es, cyr_te, period, cyr_el, period]"
proof -
  have h: "\<forall>u \<in> set canonical_units. str_lower interp_ru u = u"
    by (simp add: canonical_units_eq interp_ru_def ru_lower_def)
  note t = normalize_unit_canonical_and_variants [OF h]
  have "[cyr_ka, cyr_ghe] \<in> set canonical_units" by (simp add: canonical_units_eq)
  with t have a: "normalize_unit interp_ru [cyr_ka, cyr_ghe] = [cyr_ka, cyr_ghe]" by blast
  have k: "([cyr_es, cyr_te, period, cyr_el], [cyr_es, cyr_te, period, cyr_el, period]) \<in> set unit_map"
    by (simp add: unit_map_def)
  from t k have v: "\<And>v. squash (str_lower interp_ru v) = squash [cyr_es, cyr_te, period, cyr_el] \<Longrightarrow>
      normalize_unit interp_ru v = [cyr_es, cyr_te, period, cyr_el, period]"
    by blast
  have b: "normalize_unit interp_ru [cyr_cap_es, cyr_te, period, cyr_cap_el, period] =
     [cyr_es, cyr_te, period, cyr_el, period]"
    by (rule v) (simp add: squash_def remove1_char_def interp_ru_def ru_lower_def)
  have c: "normalize_unit interp_ru [cyr_es, cyr_te, blank, cyr_el] =
     [cyr_es, cyr_te, period, cyr_el, period]"
    by (rule v) (simp add: squash_def remove1_char_def interp_ru_def ru_lower_def)
  have d: "normalize_unit interp_ru [cyr_es, cyr_te, period, cyr_el] =
     [cyr_es, cyr_te, period, cyr_el, period]"
    by (rule v) (simp add: squash_def remove1_char_def interp_ru_def ru_lower_def)
  from h have "list_all (\<lambda>u. str_lower interp_ru u = u) canonical_units"
    by (simp add: list_all_iff)
  with a b c d show ?thesis by blast
qed

text \<open>
  C9. When no key of the dictionary equals the input after lower-casing and the removal
  of periods and blanks, the normalizer returns its input unchanged. The normalizer is a
  total function: it has no error result.
\<close>

theorem normalize_unit_passthrough:
  assumes "\<forall>(key, val) \<in> set unit_map. squash key \<noteq> squash (str_lower U x)"
  shows "normalize_unit U x = x"
proof -
  from assms have "lookup_unit (squash (str_lower U x)) unit_map = None"
    by (simp add: lookup_unit_None)
  then show ?thesis by (simp add: normalize_unit_def)
qed

theorem normalize_unit_passthrough_witness:
  "list_all (\<lambda>(key, val). squash key \<noteq>
      squash (str_lower interp_ru [cyr_cap_es, cyr_te, cyr_a, cyr_ka, cyr_a, cyr_en, cyr_o, cyr_ve]))
     unit_map \<and>
   normalize_unit interp_ru [cyr_cap_es, cyr_te, cyr_a, cyr_ka, cyr_a, cyr_en, cyr_o, cyr_ve] =
     [cyr_cap_es, cyr_te, cyr_a, cyr_ka, cyr_a, cyr_en, cyr_o, cyr_ve]"
proof -
  have h: "\<forall>(key, val) \<in> set unit_map. squash key \<noteq>
      squash (str_lower interp_ru [cyr_cap_es, cyr_te, cyr_a, cyr_ka, cyr_a, cyr_en, cyr_o, cyr_ve])"
    by (simp add: unit_map_def squash_def remove1_char_def interp_ru_def ru_lower_def)
  from h have "list_all (\<lambda>(key, val). squash key \<noteq>
      squash (str_lower interp_ru [cyr_cap_es, cyr_te, cyr_a, cyr_ka, cyr_a, cyr_en, cyr_o, cyr_ve]))
     unit_map"
    by (simp add: list_all_iff)
  with normalize_unit_passthrough [OF h] show ?thesis by blast
qed

section \<open>The claims about the per-item parser\<close>

text \<open>
  C6. Whenever a pattern matches a line, the match has three groups, and the result has
  the name group trimmed (the group without the white space at its two ends), the
  quantity group with every comma replaced by a period and nothing else changed, and
  the normalizer applied to the trimmed unit group; this holds for the quantity-first
  pattern, and for the name-first pattern when the quantity-first pattern does not
  match. The quantity is a text, not a number. The line \<^verbatim>\<open>500,5 g flour\<close> of the
  specification (in Russian, unit \<open>cyr_ghe\<close>) is parsed into the quantity \<^verbatim>\<open>500.5\<close>, the
  unit \<open>cyr_ghe\<close> and the name; a name group that ends with a blank (the line goes on
  after a newline) and one that begins with a blank lose the blank.
\<close>

theorem parse_matched_line:
  "(\<forall>m. re_match U quantity_first text = Some m \<longrightarrow>
      (\<exists>q u n. fst m = [q, u, n] \<and>
         trimmed_from U n (strip U n) \<and> trimmed_from U u (strip U u) \<and>
         parse_ingredient_string U text =
           Inr (Some \<lparr> name = strip U n,
                       quantity = map (\<lambda>c. if c = comma then period else c) q,
                       unit = normalize_unit U (strip U u) \<rparr>))) \<and>
   (\<forall>m. re_match U quantity_first text = None \<and> re_match U name_first text = Some m \<longrightarrow>
      (\<exists>n q u. fst m = [n, q, u] \<and>
         trimmed_from U n (strip U n) \<and> trimmed_from U u (strip U u) \<and>
         parse_ingredient_string U text =
           Inr (Some \<lparr> name = strip U n,
                       quantity = map (\<lambda>c. if c = comma then period else c) q,
                       unit = normalize_unit U (strip U u) \<rparr>))) \<and>
   parse_ingredient_string interp_ru
       (ascii ''500,5 '' @ [cyr_ghe, blank, cyr_em, cyr_u, cyr_ka, cyr_i]) =
     Inr (Some \<lparr> name = [cyr_em, cyr_u, cyr_ka, cyr_i], quantity = ascii ''500.5'',
                 unit = [cyr_ghe] \<rparr>) \<and>
   parse_ingredient_string interp_ru
       (ascii ''500 '' @ [cyr_ghe, blank, cyr_em, cyr_u, cyr_ka, cyr_i, blank, newline, cyr_i]) =
     Inr (Some \<lparr> name = [cyr_em, cyr_u, cyr_ka, cyr_i], quantity = ascii ''500'',
                 unit = [cyr_ghe] \<rparr>) \<and>
   parse_ingredient_string interp_ru
       ([blank, cyr_cap_es, cyr_o, cyr_el, blank, en_dash] @ ascii '' 0,5 '' @
        [cyr_che, period, blank, cyr_cap_el, period]) =
     Inr (Some \<lparr> name = [cyr_cap_es, cyr_o, cyr_el], quantity = ascii ''0.5'',
                 unit = [cyr_che, period, cyr_el, period] \<rparr>)"
proof (intro conjI allI impI)
  fix m assume m: "re_match U quantity_first text = Some m"
  from quantity_first_groups[OF m] obtain q u n where g: "fst m = [q, u, n]" by blast
  from parse_quantity_first[OF m g] g strip_trimmed[of U n] strip_trimmed[of U u]
  show "\<exists>q u n. fst m = [q, u, n] \<and>
         trimmed_from U n (strip U n) \<and> trimmed_from U u (strip U u) \<and>
         parse_ingredient_string U text =
           Inr (Some \<lparr> name = strip U n,
                       quantity = map (\<lambda>c. if c = comma then period else c) q,
                       unit = normalize_unit U (strip U u) \<rparr>)"
    unfolding replace1_def by blast
next
  fix m assume "re_match U quantity_first text = None \<and> re_match U name_first text = Some m"
  then have n0: "re_match U quantity_first text = None"
    and m: "re_match U name_first text = Some m" by simp_all
  from name_first_groups[OF m] obtain n q u where g: "fst m = [n, q, u]" by blast
  from parse_name_first[OF n0 m g] g strip_trimmed[of U n] strip_trimmed[of U u]
  show "\<exists>n q u. fst m = [n, q, u] \<and>
         trimmed_from U n (strip U n) \<and> trimmed_from U u (strip U u) \<and>
         parse_ingredient_string U text =
           Inr (Some \<lparr> name = strip U n,
                       quantity = map (\<lambda>c. if c = comma then period else c) q,
                       unit = normalize_unit U (strip U u) \<rparr>)"
    unfolding replace1_def by blast
next
  show "parse_ingredient_string interp_ru
       (ascii ''500,5 '' @ [cyr_ghe, blank, cyr_em, cyr_u, cyr_ka, cyr_i]) =
     Inr (Some \<lparr> name = [cyr_em, cyr_u, cyr_ka, cyr_i], quantity = ascii ''500.5'',
                 unit = [cyr_ghe] \<rparr>)" by (rule flour_parsed)
next
  show "parse_ingredient_string interp_ru
       (ascii ''500 '' @ [cyr_ghe, blank, cyr_em, cyr_u, cyr_ka, cyr_i, blank, newline, cyr_i]) =
     Inr (Some \<lparr> name = [cyr_em, cyr_u, cyr_ka, cyr_i], quantity = ascii ''500'',
                 unit = [cyr_ghe] \<rparr>)" by (simp add: eval_defs)
next
  show "parse_ingredient_string interp_ru
       ([blank, cyr_cap_es, cyr_o, cyr_el, blank, en_dash] @ ascii '' 0,5 '' @
        [cyr_che, period, blank, cyr_cap_el, period]) =
     Inr (Some \<lparr> name = [cyr_cap_es, cyr_o, cyr_el], quantity = ascii ''0.5'',
                 unit = [cyr_che, period, cyr_el, period] \<rparr>)" by (simp add: eval_defs)
qed

theorem parse_matched_line_witness:
  "re_match interp_ru name_first
      ([blank, cyr_cap_es, cyr_o, cyr_el, blank, en_dash] @ ascii '' 0,5 '' @
       [cyr_che, period, blank, cyr_cap_el, period]) =
     Some ([[blank, cyr_cap_es, cyr_o, cyr_el], ascii ''0,5'',
            [cyr_che, period, blank, cyr_cap_el, period]], []) \<and>
   trimmed_from interp_ru [blank, cyr_cap_es, cyr_o, cyr_el] [cyr_cap_es, cyr_o, cyr_el] \<and>
   parse_ingredient_string interp_ru
      ([blank, cyr_cap_es, cyr_o, cyr_el, blank, en_dash] @ ascii '' 0,5 '' @
       [cyr_che, period, blank, cyr_cap_el, period]) =
     Inr (Some \<lparr> name = [cyr_cap_es, cyr_o, cyr_el], quantity = ascii ''0.5'',
                 unit = [cyr_che, period, cyr_el, period] \<rparr>) \<and>
   re_match interp_ru quantity_first
      (ascii ''500 '' @ [cyr_ghe, blank, cyr_em, cyr_u, cyr_ka, cyr_i, blank, newline, cyr_i]) =
     Some ([ascii ''500'', [cyr_ghe], [cyr_em, cyr_u, cyr_ka, cyr_i, blank]], [newline, cyr_i]) \<and>
   trimmed_from interp_ru [cyr_em, cyr_u, cyr_ka, cyr_i, blank] [cyr_em, cyr_u, cyr_ka, cyr_i] \<and>
   parse_ingredient_string interp_ru
      (ascii ''500 '' @ [cyr_ghe, blank, cyr_em, cyr_u, cyr_ka, cyr_i, blank, newline, cyr_i]) =
     Inr (Some \<lparr> name = [cyr_em, cyr_u, cyr_ka, cyr_i], quantity = ascii ''500'',
                 unit = [cyr_ghe] \<rparr>)"
proof -
  let ?salt = "[blank, cyr_cap_es, cyr_o, cyr_el, blank, en_dash] @ ascii '' 0,5 '' @
     [cyr_che, period, blank, cyr_cap_el, period]"
  let ?flour = "ascii ''500 '' @ [cyr_ghe, blank, cyr_em, cyr_u, cyr_ka, cyr_i, blank, newline, cyr_i]"
  have vals: "strip interp_ru [blank, cyr_cap_es, cyr_o, cyr_el] = [cyr_cap_es, cyr_o, cyr_el]"
    "strip interp_ru [cyr_em, cyr_u, cyr_ka, cyr_i, blank] = [cyr_em, cyr_u, cyr_ka, cyr_i]"
    "strip interp_ru [cyr_ghe] = [cyr_ghe]"
    "normalize_unit interp_ru (strip interp_ru [cyr_che, period, blank, cyr_cap_el, period]) =
       [cyr_che, period, cyr_el, period]"
    "normalize_unit interp_ru [cyr_ghe] = [cyr_ghe]"
    "map (\<lambda>c. if c = comma then period else c) (ascii ''0,5'') = ascii ''0.5''"
    by (simp_all add: strip_def normalize_unit_def unit_map_def squash_def remove1_char_def
        ascii_def interp_ru_def ru_isspace_def ru_lower_def)
  note s = parse_matched_line[of interp_ru ?salt, THEN conjunct2, THEN conjunct1, rule_format,
      OF salt_leading_blank]
  from s have s1: "trimmed_from interp_ru [blank, cyr_cap_es, cyr_o, cyr_el]
         (strip interp_ru [blank, cyr_cap_es, cyr_o, cyr_el])"
    and s2: "parse_ingredient_string interp_ru ?salt =
     Inr (Some \<lparr> name = strip interp_ru [blank, cyr_cap_es, cyr_o, cyr_el],
                 quantity = map (\<lambda>c. if c = comma then period else c) (ascii ''0,5''),
                 unit = normalize_unit interp_ru
                   (strip interp_ru [cyr_che, period, blank, cyr_cap_el, period]) \<rparr>)"
    by auto
  note f = parse_matched_line[of interp_ru ?flour, THEN conjunct1, rule_format, OF flour_newline]
  from f have f1: "trimmed_from interp_ru [cyr_em, cyr_u, cyr_ka, cyr_i, blank]
         (strip interp_ru [cyr_em, cyr_u, cyr_ka, cyr_i, blank])"
    and f2: "parse_ingredient_string interp_ru ?flour =
     Inr (Some \<lparr> name = strip interp_ru [cyr_em, cyr_u, cyr_ka, cyr_i, blank],
                 quantity = map (\<lambda>c. if c = comma then period else c) (ascii ''500''),
                 unit = normalize_unit interp_ru (strip interp_ru [cyr_ghe]) \<rparr>)"
    by auto
  have q: "map (\<lambda>c. if c = comma then period else c) (ascii ''500'') = ascii ''500''"
    by (simp add: ascii_def)
  from s1 s2 f1 f2 salt_leading_blank flour_newline show ?thesis
    by (simp only: vals q simp_thms)
qed

text \<open>
  C7. When a line matches both the quantity-first and the name-first pattern, the result
  is built from the three groups of the quantity-first match: the patterns are tried in
  that order and the first match returns.
\<close>

theorem quantity_first_wins:
  assumes "re_match U quantity_first text = Some m0"
    and "re_match U name_first text = Some m1"
  shows "\<exists>q u n. fst m0 = [q, u, n] \<and>
           parse_ingredient_string U text =
             Inr (Some \<lparr> name = strip U n, quantity = replace1 comma period q,
                         unit = normalize_unit U (strip U u) \<rparr>)"
proof -
  from quantity_first_groups[OF assms(1)] obtain q u n where g: "fst m0 = [q, u, n]" by blast
  from parse_quantity_first[OF assms(1) g] g show ?thesis by blast
qed

theorem quantity_first_wins_witness:
  "re_match interp_ru quantity_first
      (ascii ''2 '' @ [cyr_es, cyr_te, period, cyr_el, period] @ ascii '' - 3 '' @ [cyr_ghe]) =
     Some ([ascii ''2'', [cyr_es, cyr_te, period, cyr_el, period], ascii ''3 '' @ [cyr_ghe]], []) \<and>
   re_match interp_ru name_first
      (ascii ''2 '' @ [cyr_es, cyr_te, period, cyr_el, period] @ ascii '' - 3 '' @ [cyr_ghe]) =
     Some ([ascii ''2 '' @ [cyr_es, cyr_te, period, cyr_el, period], ascii ''3'', [cyr_ghe]], []) \<and>
   parse_ingredient_string interp_ru
      (ascii ''2 '' @ [cyr_es, cyr_te, period, cyr_el, period] @ ascii '' - 3 '' @ [cyr_ghe]) =
     Inr (Some \<lparr> name = ascii ''3 '' @ [cyr_ghe], quantity = ascii ''2'',
                 unit = [cyr_es, cyr_te, period, cyr_el, period] \<rparr>)"
proof -
  let ?line = "ascii ''2 '' @ [cyr_es, cyr_te, period, cyr_el, period] @ ascii '' - 3 '' @ [cyr_ghe]"
  from quantity_first_wins[OF spoon_both]
  have "parse_ingredient_string interp_ru ?line =
     Inr (Some \<lparr> name = strip interp_ru (ascii ''3 '' @ [cyr_ghe]),
                 quantity = replace1 comma period (ascii ''2''),
                 unit = normalize_unit interp_ru (strip interp_ru [cyr_es, cyr_te, period, cyr_el, period]) \<rparr>)"
    by auto
  then have "parse_ingredient_string interp_ru ?line =
     Inr (Some \<lparr> name = ascii ''3 '' @ [cyr_ghe], quantity = ascii ''2'',
                 unit = [cyr_es, cyr_te, period, cyr_el, period] \<rparr>)"
    by (simp add: strip_def replace1_def normalize_unit_def unit_map_def squash_def
        remove1_char_def ascii_def interp_ru_def ru_isspace_def ru_lower_def)
  with spoon_both show ?thesis by simp
qed

text \<open>
  C8. When a line matches neither pattern, the parser returns the whole line as the name
  with the quantity \<^verbatim>\<open>1\<close> and the unit for pieces if the line has more than two
  characters, and \<^verbatim>\<open>None\<close> otherwise. No line of at most two characters matches a
  pattern, so every such line is unparseable; the loop over the items skips it and goes
  on with the accumulator unchanged.
\<close>

theorem unmatched_line:
  "(re_match U quantity_first line = None \<and> re_match U name_first line = None \<longrightarrow>
      parse_ingredient_string U line =
        (if length line > 2
         then Inr (Some \<lparr> name = line, quantity = ascii ''1'', unit = [cyr_sha, cyr_te] \<rparr>)
         else Inr None)) \<and>
   (length line \<le> 2 \<longrightarrow>
      parse_ingredient_string U line = Inr None \<and>
      (\<forall>item items acc. get_text_strip item = line \<longrightarrow>
         collect_items U (item # items) acc = collect_items U items acc))"
proof (intro conjI impI allI)
  assume "re_match U quantity_first line = None \<and> re_match U name_first line = None"
  then show "parse_ingredient_string U line =
        (if length line > 2
         then Inr (Some \<lparr> name = line, quantity = ascii ''1'', unit = [cyr_sha, cyr_te] \<rparr>)
         else Inr None)"
    using parse_unmatched by blast
next
  assume short: "length line \<le> 2"
  from short_line_unmatched[OF short] parse_unmatched[of U line] short
  show none: "parse_ingredient_string U line = Inr None" by simp
  fix item items acc
  assume "get_text_strip item = line"
  with none show "collect_items U (item # items) acc = collect_items U items acc"
    by (simp add: collect_items_skip)
qed

theorem unmatched_line_witness:
  "parse_ingredient_string interp_ru [cyr_es, cyr_o, cyr_el, cyr_i] =
     Inr (Some \<lparr> name = [cyr_es, cyr_o, cyr_el, cyr_i], quantity = ascii ''1'',
                 unit = [cyr_sha, cyr_te] \<rparr>) \<and>
   parse_ingredient_string interp_ru [cyr_i] = Inr None \<and>
   collect_items interp_ru [Element [cyr_i] [cyr_i] [] []] [] = Inr []"
proof -
  from unmatched_line[where U = interp_ru and line = "[cyr_es, cyr_o, cyr_el, cyr_i]"] salt_unmatched
  have a: "parse_ingredient_string interp_ru [cyr_es, cyr_o, cyr_el, cyr_i] =
     Inr (Some \<lparr> name = [cyr_es, cyr_o, cyr_el, cyr_i], quantity = ascii ''1'',
                 unit = [cyr_sha, cyr_te] \<rparr>)" by simp
  from unmatched_line[where U = interp_ru and line = "[cyr_i]"]
  have b: "parse_ingredient_string interp_ru [cyr_i] = Inr None"
    and c: "collect_items interp_ru (Element [cyr_i] [cyr_i] [] [] # []) [] = collect_items interp_ru [] []"
    by simp_all
  from a b c show ?thesis by simp
qed

text \<open>
  C10. Whenever the parser returns an ingredient, its quantity is not empty, contains no
  comma, and is a digit run or a digit run, one period and a digit run; this holds for
  both patterns and for the whole-line fallback. The digits are those of the Unicode
  tables, of which the statement needs that the comma is not a decimal digit and that
  the character \<^verbatim>\<open>1\<close> is one.
\<close>

theorem quantity_well_formed:
  assumes nc: "\<not> isdecimal U comma" and one: "isdecimal U 0x31"
    and res: "parse_ingredient_string U line = Inr (Some r)"
  shows "quantity r \<noteq> [] \<and> comma \<notin> set (quantity r) \<and> quantity_shape U (quantity r)"
proof (cases "re_match U quantity_first line")
  case (Some m)
  from quantity_first_groups[OF Some] obtain q u n
    where g: "fst m = [q, u, n]" and raw: "number_raw U q" by blast
  from parse_quantity_first[OF Some g] res have "quantity r = replace1 comma period q" by auto
  with number_raw_shape[OF nc raw] show ?thesis by simp
next
  case None
  show ?thesis
  proof (cases "re_match U name_first line")
    case (Some m)
    from name_first_groups[OF Some] obtain n q u
      where g: "fst m = [n, q, u]" and raw: "number_raw U q" by blast
    from parse_name_first[OF None Some g] res have "quantity r = replace1 comma period q" by auto
    with number_raw_shape[OF nc raw] show ?thesis by simp
  next
    case None2: None
    from parse_unmatched[OF None None2] res have "quantity r = ascii ''1''"
      by (auto split: if_splits)
    with one show ?thesis
      by (simp add: ascii_def quantity_shape_def digit_run_def)
  qed
qed

theorem quantity_well_formed_witness:
  "quantity_shape interp_ru (ascii ''500.5'') \<and> quantity_shape interp_ru (ascii ''0.5'') \<and>
   quantity_shape interp_ru (ascii ''1'')"
  using quantity_well_formed[OF interp_ru_digits flour_parsed]
    quantity_well_formed[OF interp_ru_digits salt_parsed]
    quantity_well_formed[OF interp_ru_digits salt_whole_line]
  by simp

section \<open>The claims about the extractors and the top-level parse\<close>

text \<open>
  C4. For every page the ingredient list extractor returns a list, and the list is not
  empty; when neither the containers of the selectors nor the elements found by class
  yield a parsed item, the list is exactly the two placeholder ingredients.
\<close>

theorem ingredients_never_empty:
  "\<exists>xs. extract_ingredients U S = Inr xs \<and> xs \<noteq> [] \<and>
        (nothing_parsed U S \<longrightarrow> xs = placeholder_ingredients)"
  by (rule extract_ingredients_result)

theorem ingredients_never_empty_witness:
  "nothing_parsed interp_ru short_item_page \<and>
   extract_ingredients interp_ru short_item_page = Inr placeholder_ingredients \<and>
   length placeholder_ingredients = 2"
proof -
  from ingredients_never_empty[of interp_ru short_item_page] short_item_nothing
  have "extract_ingredients interp_ru short_item_page = Inr placeholder_ingredients" by auto
  with short_item_nothing show ?thesis by (simp add: placeholder_ingredients_def)
qed

text \<open>
  C5. When the fetch ends with an exception (no connection, timeout, error status,
  parser failure), \<^verbatim>\<open>parse_recipe\<close> returns \<^verbatim>\<open>None\<close> and leaves the parser object as it
  was: no page is stored, so no extractor has a document to run on, and no field of a
  record is produced.
\<close>

theorem fetch_failure_no_recipe:
  "parse_recipe U (Inl e) self = (Inr None, self)"
  by (simp add: parse_recipe_def fetch_page_def)

theorem fetch_failure_no_recipe_witness:
  "parse_recipe interp_ru (Inl Timeout) (init (ascii ''https://example.com'')) =
     (Inr None, \<lparr> url = ascii ''https://example.com'', soup = None \<rparr>) \<and>
   parse_recipe interp_ru (Inl (HTTPError 404)) (init (ascii ''https://example.com'')) =
     (Inr None, \<lparr> url = ascii ''https://example.com'', soup = None \<rparr>)"
  using fetch_failure_no_recipe[of interp_ru Timeout "init (ascii ''https://example.com'')"]
    fetch_failure_no_recipe[of interp_ru "HTTPError 404" "init (ascii ''https://example.com'')"]
  by (simp add: init_def)

text \<open>
  C1. The claim that a parse which only finds the placeholder title returns no record
  does not hold: on a page where no title selector finds an element and there is no
  title tag, the title is the placeholder and \<^verbatim>\<open>parse_recipe\<close> returns a full record.
\<close>

theorem placeholder_title_counterexample:
  "list_all (\<lambda>selector. soup_select_one bare_page selector = None) title_selectors \<and>
   soup_find bare_page ''title'' = None \<and>
   extract_title interp_ru bare_page = untitled \<and>
   fst (parse_recipe interp_ru (Inr bare_page) (init [])) =
     Inr (Some \<lparr> title = untitled, description = no_description,
                 instructions = no_instructions, ingredients = placeholder_ingredients,
                 cooking_time = 30, servings = 4 \<rparr>)"
  by (simp add: page_defs untitled_def eval_defs)

text \<open>
  C1, amended. When no title selector finds an element and the page has no title tag,
  title extraction produces the placeholder. Whenever it produces the placeholder, the
  parse of a fetched page does not return \<^verbatim>\<open>None\<close>, and it returns a record whose title
  is the placeholder unless the conversion of the cooking time or of the servings
  raises, which cannot happen when the interpreter sets no limit on the digits of
  \<^verbatim>\<open>int\<close>. The parse of a fetched page returns \<^verbatim>\<open>None\<close> exactly when the extracted title is
  the empty text and neither conversion raises.
\<close>

theorem placeholder_title_accepted:
  "(list_all (\<lambda>selector. soup_select_one S selector = None) title_selectors \<and>
    soup_find S ''title'' = None \<longrightarrow> extract_title U S = untitled) \<and>
   (extract_title U S = untitled \<longrightarrow> fst (parse_recipe U (Inr S) self) \<noteq> Inr None) \<and>
   (extract_title U S = untitled \<and> numbers_convert U S \<longrightarrow>
      (\<exists>r. fst (parse_recipe U (Inr S) self) = Inr (Some r) \<and> title r = untitled)) \<and>
   (int_max_str_digits U = 0 \<longrightarrow> numbers_convert U S) \<and>
   (fst (parse_recipe U (Inr S) self) = Inr None \<longleftrightarrow>
      extract_title U S = [] \<and> numbers_convert U S)"
proof -
  from parse_recipe_result[of U S self] obtain ins ings
    where r: "fst (parse_recipe U (Inr S) self) =
     (case extract_cooking_time U S of
        Inl e \<Rightarrow> Inl e
      | Inr ct \<Rightarrow>
          (case extract_servings U S of
             Inl e \<Rightarrow> Inl e
           | Inr sv \<Rightarrow>
               if extract_title U S = [] then Inr None
               else Inr (Some \<lparr> title = extract_title U S,
                                 description = extract_description U S,
                                 instructions = ins, ingredients = ings, cooking_time = ct,
                                 servings = sv \<rparr>)))"
    by blast
  have a: "list_all (\<lambda>selector. soup_select_one S selector = None) title_selectors \<and>
    soup_find S ''title'' = None \<longrightarrow> extract_title U S = untitled"
    using title_exhausted by blast
  have b: "extract_title U S = untitled \<longrightarrow> fst (parse_recipe U (Inr S) self) \<noteq> Inr None"
    using r untitled_not_empty by (auto split: sum.splits)
  have c: "extract_title U S = untitled \<and> numbers_convert U S \<longrightarrow>
      (\<exists>r. fst (parse_recipe U (Inr S) self) = Inr (Some r) \<and> title r = untitled)"
    using r untitled_not_empty by (auto simp: numbers_convert_def split: sum.splits)
  have d: "int_max_str_digits U = 0 \<longrightarrow> numbers_convert U S"
    using numbers_convert_unlimited by blast
  have e: "fst (parse_recipe U (Inr S) self) = Inr None \<longleftrightarrow>
      extract_title U S = [] \<and> numbers_convert U S"
    using r by (auto simp: numbers_convert_def split: sum.splits)
  from a b c d e show ?thesis by blast
qed

theorem placeholder_title_accepted_witness:
  "extract_title interp_ru bare_page = untitled \<and> numbers_convert interp_ru bare_page \<and>
   (\<exists>r. fst (parse_recipe interp_ru (Inr bare_page) (init [])) = Inr (Some r) \<and>
        title r = untitled)"
proof -
  note t = placeholder_title_accepted[of bare_page interp_ru "init []"]
  from t bare_page_exhausted have a: "extract_title interp_ru bare_page = untitled" by blast
  have b: "numbers_convert interp_ru bare_page"
    by (simp add: numbers_convert_def page_defs eval_defs)
  from t a b show ?thesis by blast
qed

text \<open>
  C2. The claim that a selector which finds an element with empty text does not end the
  search does not hold for the title: on a page whose first heading is empty and whose
  second heading carries the name, the first title strategy gives the empty text, the
  second would give the name, and the extractor returns the empty text.
\<close>

theorem empty_text_ends_search_counterexample:
  "title_strategy empty_heading_page (title_selectors ! 0) = Some [] \<and>
   title_strategy empty_heading_page (title_selectors ! 1) = Some soup_word \<and>
   soup_word \<noteq> [] \<and>
   extract_title interp_ru empty_heading_page = []"
  by (simp add: empty_heading_page_def title_selectors_def title_strategy_def extract_title_def
      soup_word_def)

text \<open>
  C2, amended. Every field extractor evaluates its selector list in order and returns
  the result of the first strategy that succeeds. A strategy whose selector finds no
  element never succeeds. When the selector finds an element, the title strategy and
  the description strategy of a selector that does not start with \<^verbatim>\<open>meta\<close> succeed with
  the element's stripped text, empty or not; the description strategy of a \<^verbatim>\<open>meta\<close>
  selector succeeds when the element has a non-empty \<^verbatim>\<open>content\<close> attribute, with the
  stripped attribute instead of the text; the instructions strategy succeeds when the
  container yields at least one step, with the steps joined by newlines; and the
  strategy of cooking time and servings succeeds when the element's text contains a
  decimal digit, with the result of \<^verbatim>\<open>int\<close> for its first digit run.
\<close>

theorem strategies_in_order:
  "(first_hit (title_strategy S) title_selectors i t \<longrightarrow> extract_title U S = t) \<and>
   (first_hit (description_strategy U S) description_selectors i d \<longrightarrow>
      extract_description U S = d) \<and>
   (first_hit (instructions_strategy S) instructions_selectors i ins \<longrightarrow>
      extract_instructions U S = Inr ins) \<and>
   (first_hit (number_strategy U S) cooking_time_selectors i n \<longrightarrow>
      extract_cooking_time U S = n) \<and>
   (first_hit (number_strategy U S) servings_selectors i n \<longrightarrow> extract_servings U S = n) \<and>
   (soup_select_one S selector = None \<longrightarrow>
      title_strategy S selector = None \<and> description_strategy U S selector = None \<and>
      instructions_strategy S selector = None \<and> number_strategy U S selector = None) \<and>
   (soup_select_one S selector = Some element \<longrightarrow>
      title_strategy S selector = Some (get_text_strip element) \<and>
      (\<not> startswith selector ''meta'' \<longrightarrow>
         description_strategy U S selector = Some (get_text_strip element)) \<and>
      (startswith selector ''meta'' \<longrightarrow>
         description_strategy U S selector =
           (case get_attr element ''content'' of
              None \<Rightarrow> None
            | Some content \<Rightarrow> if content = [] then None else Some (strip U content))) \<and>
      instructions_strategy S selector =
        (let steps = collect_steps 1 (find_all element [''li'', ''p''])
         in if steps = [] then None else Some (join [newline] steps)) \<and>
      number_strategy U S selector =
        (if list_ex (isdecimal U) (get_text element)
         then Some (py_int U (first_digits U (get_text element))) else None))"
proof -
  have 1: "first_hit (title_strategy S) title_selectors i t \<longrightarrow> extract_title U S = t"
    by (auto simp: extract_title_def dest: for_first_hit)
  have 2: "first_hit (description_strategy U S) description_selectors i d \<longrightarrow>
      extract_description U S = d"
    by (auto simp: extract_description_def dest: for_first_hit)
  have 3: "first_hit (instructions_strategy S) instructions_selectors i ins \<longrightarrow>
      extract_instructions U S = Inr ins"
    by (auto simp: extract_instructions_def dest: for_first_hit)
  have 4: "first_hit (number_strategy U S) cooking_time_selectors i n \<longrightarrow>
      extract_cooking_time U S = n"
    by (auto simp: extract_cooking_time_def dest: for_first_hit)
  have 5: "first_hit (number_strategy U S) servings_selectors i n \<longrightarrow> extract_servings U S = n"
    by (auto simp: extract_servings_def dest: for_first_hit)
  have 6: "soup_select_one S selector = None \<longrightarrow>
      title_strategy S selector = None \<and> description_strategy U S selector = None \<and>
      instructions_strategy S selector = None \<and> number_strategy U S selector = None"
    using strategies_not_found by blast
  have 7: "soup_select_one S selector = Some element \<longrightarrow>
      title_strategy S selector = Some (get_text_strip element) \<and>
      (\<not> startswith selector ''meta'' \<longrightarrow>
         description_strategy U S selector = Some (get_text_strip element)) \<and>
      (startswith selector ''meta'' \<longrightarrow>
         description_strategy U S selector =
           (case get_attr element ''content'' of
              None \<Rightarrow> None
            | Some content \<Rightarrow> if content = [] then None else Some (strip U content))) \<and>
      instructions_strategy S selector =
        (let steps = collect_steps 1 (find_all element [''li'', ''p''])
         in if steps = [] then None else Some (join [newline] steps)) \<and>
      number_strategy U S selector =
        (if list_ex (isdecimal U) (get_text element)
         then Some (py_int U (first_digits U (get_text element))) else None)"
    by (auto simp: strategies_found number_strategy_found simp del: Let_def)
  from 1 2 3 4 5 6 7 show ?thesis by blast
qed

theorem strategies_in_order_witness:
  "extract_title interp_ru empty_heading_page = [] \<and>
   extract_description interp_ru meta_page = soup_word"
proof -
  from strategies_in_order[of empty_heading_page 0 "[]" interp_ru] empty_heading_hit
  have a: "extract_title interp_ru empty_heading_page = []" by blast
  from strategies_in_order[of meta_page 2 _ interp_ru soup_word] meta_hit
  have b: "extract_description interp_ru meta_page = soup_word" by blast
  from a b show ?thesis by blast
qed

end
